theory Spec2Isabelle
  imports Main
begin

section \<open>JavaScript values that reach the route handlers\<close>

text \<open>
  The four route files (\<^verbatim>\<open>src/app/mcp/route.ts\<close> and the three variants
  \<^verbatim>\<open>part_000\<close>, \<^verbatim>\<open>part_001\<close>, \<^verbatim>\<open>part_002\<close>) work on strings, on
  arrays of strings and numbers, and, in the manual fallback, on whatever value
  \<^verbatim>\<open>JSON.parse\<close> returned for the request body. A parsed body is a \<open>json\<close> value;
  \<^verbatim>\<open>undefined\<close> (a property that is not there) is \<open>None\<close> of an option. Numbers
  are kept abstract: \<open>'n\<close> is any ring with a zero and numerals, and the conversion
  of a number to its text (\<^verbatim>\<open>Number.prototype.toString\<close>) is the parameter
  \<open>num_str\<close> of every function that prints one. An object is the list of its own
  properties as \<^verbatim>\<open>JSON.parse\<close> built it, one entry for each key.
\<close>

datatype js_error = SyntaxError | TypeError

datatype 'n json =
    JNull
  | JBool bool
  | JNum 'n
  | JStr string
  | JArr "'n json list"
  | JObj "(string \<times> 'n json) list"

text \<open>\<^verbatim>\<open>Array.prototype.join\<close> on elements that are already strings.\<close>

fun join :: "string \<Rightarrow> string list \<Rightarrow> string" where
  "join sep [] = []"
| "join sep [x] = x"
| "join sep (x # y # ys) = x @ sep @ join sep (y # ys)"

text \<open>\<^verbatim>\<open>String.prototype.includes\<close>: the needle occurs somewhere in the text.\<close>

fun str_includes :: "string \<Rightarrow> string \<Rightarrow> bool" where
  "str_includes [] needle = (needle = [])"
| "str_includes (c # cs) needle =
     (take (length needle) (c # cs) = needle \<or> str_includes cs needle)"

text \<open>
  Truthiness of a value, as \<^verbatim>\<open>||\<close>, \<^verbatim>\<open>!\<close> and \<^verbatim>\<open>if\<close> test it
  (\<^verbatim>\<open>JSON.parse\<close> never yields \<^verbatim>\<open>NaN\<close>).
\<close>

fun truthy :: "('n::ring_1) json \<Rightarrow> bool" where
  "truthy JNull = False"
| "truthy (JBool b) = b"
| "truthy (JNum n) = (n \<noteq> 0)"
| "truthy (JStr s) = (s \<noteq> [])"
| "truthy (JArr xs) = True"
| "truthy (JObj kvs) = True"

text \<open>
  Reading one of the properties \<^verbatim>\<open>id\<close>, \<^verbatim>\<open>method\<close>, \<^verbatim>\<open>params\<close>,
  \<^verbatim>\<open>name\<close>, \<^verbatim>\<open>arguments\<close>, \<^verbatim>\<open>target\<close>, \<^verbatim>\<open>ports\<close>, \<^verbatim>\<open>probes\<close> of a
  value that is not \<^verbatim>\<open>null\<close>: an object has it when it is one of its keys, and no
  prototype of a boolean, number, string or array defines any of these names.
  \<open>read_prop\<close> is the same read on any value; on \<^verbatim>\<open>null\<close> it throws.
\<close>

fun own_prop :: "'n json \<Rightarrow> string \<Rightarrow> 'n json option" where
  "own_prop (JObj kvs) k = map_of kvs k"
| "own_prop v k = None"

definition read_prop :: "'n json \<Rightarrow> string \<Rightarrow> js_error + 'n json option" where
  "read_prop v k = (if v = JNull then Inl TypeError else Inr (own_prop v k))"

text \<open>
  The property \<^verbatim>\<open>length\<close> of a value that is neither \<^verbatim>\<open>null\<close> nor
  \<^verbatim>\<open>undefined\<close>, as far as the handlers look at it: whether it is \<^verbatim>\<open>=== 0\<close>,
  and whether it is truthy. Strings and arrays have their own length; an object has
  one when \<^verbatim>\<open>length\<close> is one of its keys; booleans and numbers have none.
\<close>

fun length_is_zero :: "('n::ring_1) json \<Rightarrow> bool" where
  "length_is_zero (JArr xs) = (xs = [])"
| "length_is_zero (JStr s) = (s = [])"
| "length_is_zero (JObj kvs) =
     (case map_of kvs ''length'' of Some (JNum n) \<Rightarrow> n = 0 | _ \<Rightarrow> False)"
| "length_is_zero v = False"

fun length_truthy :: "('n::ring_1) json \<Rightarrow> bool" where
  "length_truthy (JArr xs) = (xs \<noteq> [])"
| "length_truthy (JStr s) = (s \<noteq> [])"
| "length_truthy (JObj kvs) =
     (case map_of kvs ''length'' of Some w \<Rightarrow> truthy w | None \<Rightarrow> False)"
| "length_truthy v = False"

text \<open>Collecting results, the first exception wins.\<close>

fun sequence :: "('e + 'a) list \<Rightarrow> 'e + 'a list" where
  "sequence [] = Inr []"
| "sequence (Inl e # rs) = Inl e"
| "sequence (Inr a # rs) =
     (case sequence rs of Inl e \<Rightarrow> Inl e | Inr as \<Rightarrow> Inr (a # as))"

text \<open>
  \<^verbatim>\<open>ToString\<close>, as a template literal applies it. An array prints as its elements
  joined by commas, where \<^verbatim>\<open>null\<close> elements print as the empty string. A plain
  object prints as \<^verbatim>\<open>[object Object]\<close>, unless it has a key \<^verbatim>\<open>toString\<close>: that
  value is never callable, and the conversion throws.
\<close>

fun to_string :: "('n \<Rightarrow> string) \<Rightarrow> 'n json \<Rightarrow> js_error + string" where
  "to_string num_str JNull = Inr ''null''"
| "to_string num_str (JBool b) = Inr (if b then ''true'' else ''false'')"
| "to_string num_str (JNum n) = Inr (num_str n)"
| "to_string num_str (JStr s) = Inr s"
| "to_string num_str (JArr xs) =
     (case sequence (map (\<lambda>x. if x = JNull then Inr [] else to_string num_str x) xs) of
        Inl e \<Rightarrow> Inl e
      | Inr ss \<Rightarrow> Inr (join '','' ss))"
| "to_string num_str (JObj kvs) =
     (case map_of kvs ''toString'' of
        None \<Rightarrow> Inr ''[object Object]''
      | Some w \<Rightarrow> Inl TypeError)"

text \<open>
  \<^verbatim>\<open>v.join(sep)\<close> on a value that is neither \<^verbatim>\<open>null\<close> nor \<^verbatim>\<open>undefined\<close>:
  only an array has a callable \<^verbatim>\<open>join\<close>.
\<close>

definition js_join :: "('n \<Rightarrow> string) \<Rightarrow> string \<Rightarrow> 'n json \<Rightarrow> js_error + string" where
  "js_join num_str sep v =
     (case v of
        JArr xs \<Rightarrow>
          (case sequence (map (\<lambda>x. if x = JNull then Inr [] else to_string num_str x) xs) of
             Inl e \<Rightarrow> Inl e
           | Inr ss \<Rightarrow> Inr (join sep ss))
      | _ \<Rightarrow> Inl TypeError)"

section \<open>The tool callback registered with the framework\<close>

text \<open>
  The callback of \<^verbatim>\<open>server.tool("httpx", ...)\<close>, the same in all four files up to
  the wording around the command. The framework has checked the arguments against
  the schema: \<open>target\<close> is an array of strings, \<open>ports\<close> an optional array of
  numbers, \<open>probes\<close> an optional array of strings.
\<close>

definition tool_args ::
  "('n \<Rightarrow> string) \<Rightarrow> string list \<Rightarrow> 'n list option \<Rightarrow> string list option \<Rightarrow> string list" where
  "tool_args num_str target ports probes =
     [''-u'', join '','' target, ''-silent'']
     @ (case ports of
          Some ps \<Rightarrow> if ps \<noteq> [] then [''-p'', join '','' (map num_str ps)] else []
        | None \<Rightarrow> [])
     @ (case probes of
          Some qs \<Rightarrow> if qs \<noteq> [] then map (\<lambda>probe. ''-'' @ probe) qs else []
        | None \<Rightarrow> [])"

definition tool_command ::
  "('n \<Rightarrow> string) \<Rightarrow> string list \<Rightarrow> 'n list option \<Rightarrow> string list option \<Rightarrow> string" where
  "tool_command num_str target ports probes =
     ''httpx '' @ join '' '' (tool_args num_str target ports probes)"

text \<open>The text block the callback of \<^verbatim>\<open>src/app/mcp/route.ts\<close> returns.\<close>

definition httpx_tool ::
  "('n \<Rightarrow> string) \<Rightarrow> string list \<Rightarrow> 'n list option \<Rightarrow> string list option \<Rightarrow> string" where
  "httpx_tool num_str target ports probes =
     ''Run this command locally (httpx must be installed):'' @ [CHR 0x0A, CHR 0x0A]
     @ tool_command num_str target ports probes
     @ [CHR 0x0A, CHR 0x0A]
     @ ''Execution of CLI binaries is not performed on this hosted MCP server; it only builds the command for you.''"

section \<open>Requests, responses and the manual fallback\<close>

text \<open>
  A request as the handlers read it. \<open>req_headers\<close> is the \<^verbatim>\<open>Headers\<close> object, a
  map from lower-cased header names to values; \<open>req_body\<close> is the text of the body,
  \<open>None\<close> for a request without one. A response keeps, as \<open>resp_body\<close>, the value
  that was handed to \<^verbatim>\<open>JSON.stringify\<close>; a property whose value is
  \<^verbatim>\<open>undefined\<close> is left out there, as \<^verbatim>\<open>JSON.stringify\<close> leaves it out.
\<close>

record request =
  req_url :: string
  req_method :: string
  req_headers :: "string \<Rightarrow> string option"
  req_body :: "string option"

record 'n response =
  status :: int
  resp_headers :: "(string \<times> string) list"
  resp_body :: "'n json"

definition json_response :: "int \<Rightarrow> 'n json \<Rightarrow> 'n response" where
  "json_response code v =
     \<lparr>status = code, resp_headers = [(''content-type'', ''application/json'')], resp_body = v\<rparr>"

text \<open>The shorthand property \<^verbatim>\<open>id\<close> of an object literal.\<close>

definition id_entry :: "'n json option \<Rightarrow> (string \<times> 'n json) list" where
  "id_entry rid = (case rid of None \<Rightarrow> [] | Some v \<Rightarrow> [(''id'', v)])"

definition manualInitialize :: "(string \<times> 'n json) list" where
  "manualInitialize =
     [(''jsonrpc'', JStr ''2.0''),
      (''result'', JObj
         [(''protocolVersion'', JStr ''2025-03-26''),
          (''capabilities'', JObj [(''tools'', JObj [(''listChanged'', JBool True)])]),
          (''serverInfo'', JObj [(''name'', JStr ''httpxfinish''), (''version'', JStr ''1.0.0'')])])]"

definition initialize_response :: "'n json option \<Rightarrow> 'n response" where
  "initialize_response rid = json_response 200 (JObj (manualInitialize @ id_entry rid))"

definition array_of :: "string \<Rightarrow> 'n json" where
  "array_of t = JObj [(''type'', JStr ''array''), (''items'', JObj [(''type'', JStr t)])]"

definition catalog_entry :: "'n json" where
  "catalog_entry =
     JObj
       [(''name'', JStr ''httpx''),
        (''description'',
         JStr ''Scans target domains with httpx and lists active HTTP/HTTPS services.''),
        (''inputSchema'', JObj
           [(''type'', JStr ''object''),
            (''properties'', JObj
               [(''target'', array_of ''string''),
                (''ports'', array_of ''number''),
                (''probes'', array_of ''string'')]),
            (''required'', JArr [JStr ''target''])])]"

definition tools_list_response :: "'n json option \<Rightarrow> 'n response" where
  "tools_list_response rid =
     json_response 200 (JObj
       ([(''jsonrpc'', JStr ''2.0'')] @ id_entry rid @
        [(''result'', JObj [(''tools'', JArr [catalog_entry])])]))"

definition target_required :: "('n::ring_1) json option \<Rightarrow> 'n response" where
  "target_required rid =
     json_response 400 (JObj
       ([(''jsonrpc'', JStr ''2.0'')] @ id_entry rid @
        [(''error'', JObj
           [(''code'', JNum (- 32602)), (''message'', JStr ''target is required'')])]))"

definition call_result :: "'n json option \<Rightarrow> string \<Rightarrow> 'n response" where
  "call_result rid command =
     json_response 200 (JObj
       ([(''jsonrpc'', JStr ''2.0'')] @ id_entry rid @
        [(''result'', JObj
           [(''content'', JArr
              [JObj
                 [(''type'', JStr ''text''),
                  (''text'',
                   JStr (''Run this command locally (httpx must be installed):''
                         @ [CHR 0x0A] @ command))]])])]))"

text \<open>
  Lines 136 to 152 of \<^verbatim>\<open>route.ts\<close> (the same in \<^verbatim>\<open>part_000\<close>): from the
  \<^verbatim>\<open>arguments\<close> value to the command. \<open>Inl\<close> is an exception thrown on the way,
  \<open>Inr None\<close> is the branch that answers "target is required", \<open>Inr (Some c)\<close> the
  command. Nothing checks \<open>ports\<close> or \<open>probes\<close> against the schema.
\<close>

definition ports_part :: "('n::ring_1 \<Rightarrow> string) \<Rightarrow> 'n json option \<Rightarrow> js_error + string list" where
  "ports_part num_str ports =
     (case ports of
        None \<Rightarrow> Inr []
      | Some v \<Rightarrow>
          if v \<noteq> JNull \<and> length_truthy v then
            (case js_join num_str '','' v of Inl e \<Rightarrow> Inl e | Inr s \<Rightarrow> Inr [''-p'', s])
          else Inr [])"

definition probes_part :: "('n::ring_1 \<Rightarrow> string) \<Rightarrow> 'n json option \<Rightarrow> js_error + string list" where
  "probes_part num_str probes =
     (case probes of
        None \<Rightarrow> Inr []
      | Some v \<Rightarrow>
          if v \<noteq> JNull \<and> length_truthy v then
            (case v of
               JArr ps \<Rightarrow>
                 (case sequence (map (to_string num_str) ps) of
                    Inl e \<Rightarrow> Inl e
                  | Inr ss \<Rightarrow> Inr (map (\<lambda>p. ''-'' @ p) ss))
             | _ \<Rightarrow> Inl TypeError)
          else Inr [])"

definition manual_command :: "('n::ring_1 \<Rightarrow> string) \<Rightarrow> 'n json \<Rightarrow> js_error + string option" where
  "manual_command num_str args =
     (case read_prop args ''target'' of
        Inl e \<Rightarrow> Inl e
      | Inr t \<Rightarrow>
          let targets = (case t of None \<Rightarrow> JArr [] | Some v \<Rightarrow> if truthy v then v else JArr [])
          in if length_is_zero targets then Inr None
             else
               (case js_join num_str '','' targets of
                  Inl e \<Rightarrow> Inl e
                | Inr joined \<Rightarrow>
                    (case ports_part num_str (own_prop args ''ports'') of
                       Inl e \<Rightarrow> Inl e
                     | Inr pp \<Rightarrow>
                         (case probes_part num_str (own_prop args ''probes'') of
                            Inl e \<Rightarrow> Inl e
                          | Inr qq \<Rightarrow>
                              Inr (Some (''httpx '' @
                                join '' '' ([''-u'', joined, ''-silent''] @ pp @ qq)))))))"

text \<open>
  The body of the \<^verbatim>\<open>try\<close> block after the body has been parsed: \<open>Inl\<close> is an
  exception thrown inside it, \<open>Inr (Some r)\<close> a response returned from it, and
  \<open>Inr None\<close> its end reached without a \<^verbatim>\<open>return\<close>.
\<close>

definition manual :: "('n::ring_1 \<Rightarrow> string) \<Rightarrow> 'n json \<Rightarrow> js_error + 'n response option" where
  "manual num_str data =
     (if data = JNull then Inl TypeError
      else
        let rid = own_prop data ''id'';
            method = own_prop data ''method'';
            params = own_prop data ''params''
        in if method = Some (JStr ''initialize'') then Inr (Some (initialize_response rid))
           else if method = Some (JStr ''tools/list'') then Inr (Some (tools_list_response rid))
           else if method = Some (JStr ''tools/call'') then
             (let p = (case params of None \<Rightarrow> JObj [] | Some v \<Rightarrow> if truthy v then v else JObj []);
                  name = own_prop p ''name'';
                  args = (case own_prop p ''arguments'' of None \<Rightarrow> JObj [] | Some a \<Rightarrow> a)
              in if name = Some (JStr ''httpx'') then
                   (case manual_command num_str args of
                      Inl e \<Rightarrow> Inl e
                    | Inr None \<Rightarrow> Inr (Some (target_required rid))
                    | Inr (Some command) \<Rightarrow> Inr (Some (call_result rid command)))
                 else Inr None)
           else Inr None)"

section \<open>The handlers\<close>

text \<open>
  \<^verbatim>\<open>console.log\<close> and \<^verbatim>\<open>console.error\<close> are the only effects of a handler
  besides what it does to the body of the request; each handler returns the lines
  it wrote. What a handler returns is a response it built itself (\<open>Reply\<close>), the
  call \<^verbatim>\<open>coreHandler(modifiedRequest)\<close> of the framework's handler on a request it
  built (\<open>Delegate\<close>), or an exception that leaves the handler uncaught
  (\<open>Throw\<close>). \<^verbatim>\<open>JSON.parse\<close> is the parameter \<open>parse\<close>, \<open>None\<close> where it
  throws.
\<close>

datatype log_entry = ConsoleLog string string | ConsoleError string js_error

datatype 'n action = Reply "'n response" | Delegate request | Throw js_error

definition accept_of :: "request \<Rightarrow> string" where
  "accept_of req = (case req_headers req ''accept'' of None \<Rightarrow> [] | Some a \<Rightarrow> a)"

definition body_text :: "request \<Rightarrow> string" where
  "body_text req = (case req_body req of None \<Rightarrow> [] | Some t \<Rightarrow> t)"

text \<open>
  The body of a request is a stream, and \<^verbatim>\<open>req.body\<close> is \<^verbatim>\<open>null\<close> for a
  request without one. \<^verbatim>\<open>req.json()\<close> and \<^verbatim>\<open>req.text()\<close> read the stream
  and use it up. \<^verbatim>\<open>new Request(url, {method, headers, body})\<close>, written without
  the \<^verbatim>\<open>duplex\<close> option as in all three wrappers, throws a \<^verbatim>\<open>TypeError\<close> when
  \<^verbatim>\<open>body\<close> is a stream, whether or not the stream has been read; with a
  \<^verbatim>\<open>null\<close> body it builds the request. \<^verbatim>\<open>req.clone()\<close> throws a
  \<^verbatim>\<open>TypeError\<close> on a request whose body has been used, and copies any other.
\<close>

definition new_request ::
  "string \<Rightarrow> string \<Rightarrow> (string \<Rightarrow> string option) \<Rightarrow> string option \<Rightarrow> js_error + request" where
  "new_request u m hs b =
     (case b of
        None \<Rightarrow> Inr \<lparr>req_url = u, req_method = m, req_headers = hs, req_body = None\<rparr>
      | Some t \<Rightarrow> Inl TypeError)"

definition clone :: "bool \<Rightarrow> request \<Rightarrow> js_error + request" where
  "clone used req = (if used \<and> req_body req \<noteq> None then Inl TypeError else Inr req)"

text \<open>What the handler returns once the rebuilt request is there, or is not.\<close>

definition hand_on :: "js_error + request \<Rightarrow> 'n action" where
  "hand_on rebuilt = (case rebuilt of Inl e \<Rightarrow> Throw e | Inr q \<Rightarrow> Delegate q)"

definition finish :: "(request \<Rightarrow> 'n response) \<Rightarrow> 'n action \<Rightarrow> js_error + 'n response" where
  "finish coreHandler a =
     (case a of Reply r \<Rightarrow> Inr r | Delegate q \<Rightarrow> Inr (coreHandler q) | Throw e \<Rightarrow> Inl e)"

text \<open>
  The rebuild of \<^verbatim>\<open>route.ts\<close> (lines 178 to 185) and \<^verbatim>\<open>part_002\<close> (lines 75
  to 82): the headers copied, \<^verbatim>\<open>accept\<close> set, URL, method and body taken from the
  incoming request. It stands outside the \<^verbatim>\<open>try\<close> block.
\<close>

definition forward :: "request \<Rightarrow> js_error + request" where
  "forward req =
     new_request (req_url req) (req_method req)
       ((req_headers req)(''accept'' \<mapsto> ''application/json, text/event-stream''))
       (req_body req)"

text \<open>\<^verbatim>\<open>src/app/mcp/route.ts\<close>, lines 88 to 188.\<close>

definition handler_step ::
  "('n::ring_1 \<Rightarrow> string) \<Rightarrow> (string \<Rightarrow> 'n json option) \<Rightarrow> request \<Rightarrow> log_entry list \<times> 'n action" where
  "handler_step num_str parse req =
     (let accept = accept_of req
      in if \<not> str_includes accept ''application/json'' \<or> \<not> str_includes accept ''text/event-stream''
         then
           (if req_method req = ''POST'' then
              (case parse (body_text req) of
                 None \<Rightarrow>
                   ([ConsoleError ''Manual fallback error'' SyntaxError], hand_on (forward req))
               | Some data \<Rightarrow>
                   (case manual num_str data of
                      Inl e \<Rightarrow> ([ConsoleError ''Manual fallback error'' e], hand_on (forward req))
                    | Inr (Some r) \<Rightarrow> ([], Reply r)
                    | Inr None \<Rightarrow> ([], hand_on (forward req))))
            else ([], hand_on (forward req)))
         else ([], hand_on (forward req)))"

definition handler ::
  "('n::ring_1 \<Rightarrow> string) \<Rightarrow> (string \<Rightarrow> 'n json option) \<Rightarrow> (request \<Rightarrow> 'n response) \<Rightarrow>
   request \<Rightarrow> log_entry list \<times> (js_error + 'n response)" where
  "handler num_str parse coreHandler req =
     (case handler_step num_str parse req of (out, a) \<Rightarrow> (out, finish coreHandler a))"

text \<open>
  \<^verbatim>\<open>src/unnamed/part_000\<close>, lines 88 to 186: the accept header is written to
  the log, every POST goes through the manual block, which reads the body with
  \<^verbatim>\<open>req.text()\<close>, and \<^verbatim>\<open>accept\<close> is set on the request handed on only when
  it lacks \<^verbatim>\<open>text/event-stream\<close>. The rebuild (lines 175 to 184) clones the
  request first; \<open>used\<close> says whether the body has been read by then.
\<close>

definition forward_part000 :: "bool \<Rightarrow> request \<Rightarrow> js_error + request" where
  "forward_part000 used req =
     (let hs = (if \<not> str_includes (accept_of req) ''text/event-stream''
                then (req_headers req)(''accept'' \<mapsto> ''application/json, text/event-stream'')
                else req_headers req)
      in case clone used req of
           Inl e \<Rightarrow> Inl e
         | Inr cloned \<Rightarrow> new_request (req_url req) (req_method req) hs (req_body cloned))"

definition handler_step_part000 ::
  "('n::ring_1 \<Rightarrow> string) \<Rightarrow> (string \<Rightarrow> 'n json option) \<Rightarrow> request \<Rightarrow> log_entry list \<times> 'n action" where
  "handler_step_part000 num_str parse req =
     (let accept = accept_of req;
          seen = [ConsoleLog ''Incoming Accept header:'' accept]
      in if req_method req = ''POST'' then
           (case parse (body_text req) of
              None \<Rightarrow>
                (seen @ [ConsoleError ''manual handler parse error'' SyntaxError],
                 hand_on (forward_part000 True req))
            | Some data \<Rightarrow>
                (case manual num_str data of
                   Inl e \<Rightarrow>
                     (seen @ [ConsoleError ''manual handler parse error'' e],
                      hand_on (forward_part000 True req))
                 | Inr (Some r) \<Rightarrow> (seen, Reply r)
                 | Inr None \<Rightarrow> (seen, hand_on (forward_part000 True req))))
         else (seen, hand_on (forward_part000 False req)))"

definition handler_part000 ::
  "('n::ring_1 \<Rightarrow> string) \<Rightarrow> (string \<Rightarrow> 'n json option) \<Rightarrow> (request \<Rightarrow> 'n response) \<Rightarrow>
   request \<Rightarrow> log_entry list \<times> (js_error + 'n response)" where
  "handler_part000 num_str parse baseHandler req =
     (case handler_step_part000 num_str parse req of (out, a) \<Rightarrow> (out, finish baseHandler a))"

text \<open>
  \<^verbatim>\<open>src/unnamed/part_002\<close>, lines 74 to 85: every request goes to the rebuild.
  (\<^verbatim>\<open>src/unnamed/part_001\<close> exports the framework handler itself, with no
  wrapper around it.)
\<close>

definition handler_step_part002 :: "request \<Rightarrow> log_entry list \<times> 'n action" where
  "handler_step_part002 req = ([], hand_on (forward req))"

definition handler_part002 ::
  "(request \<Rightarrow> 'n response) \<Rightarrow> request \<Rightarrow> log_entry list \<times> (js_error + 'n response)" where
  "handler_part002 coreHandler req =
     (case handler_step_part002 req of (out, a) \<Rightarrow> (out, finish coreHandler a))"

section \<open>The command format of the specification\<close>

text \<open>
  The format as section 4.2 of the specification words it, to compare the two
  builders with: \<^verbatim>\<open>httpx -u\<close> and the targets joined by commas,
  \<^verbatim>\<open>-silent\<close>, then \<^verbatim>\<open>-p\<close> and the ports joined by commas when ports are
  given and not empty, then one \<^verbatim>\<open>-<probe>\<close> flag for each probe, in order.
\<close>

definition spec_command ::
  "('n \<Rightarrow> string) \<Rightarrow> string list \<Rightarrow> 'n list option \<Rightarrow> string list option \<Rightarrow> string" where
  "spec_command num_str target ports probes =
     ''httpx -u '' @ join '','' target @ '' -silent''
     @ (case ports of
          None \<Rightarrow> []
        | Some ps \<Rightarrow> if ps = [] then [] else '' -p '' @ join '','' (map num_str ps))
     @ concat (map (\<lambda>probe. '' -'' @ probe) (case probes of None \<Rightarrow> [] | Some qs \<Rightarrow> qs))"

text \<open>
  A number printer for the concrete inputs below: an integer in decimal digits, which
  is how JavaScript prints a port number.
\<close>

function decimal :: "int \<Rightarrow> string" where
  "decimal n =
     (if n < 10 then [''0123456789'' ! nat n]
      else decimal (n div 10) @ [''0123456789'' ! nat (n mod 10)])"
  by pat_completeness auto
termination
  by (relation "measure nat") auto

declare decimal.simps [simp del]

definition port_str :: "int \<Rightarrow> string" where
  "port_str i = (if i < 0 then ''-'' @ decimal (- i) else decimal i)"

text \<open>
  Two helpers for stating and instantiating the theorems: the value found in a
  response body by following a list of keys, and a \<^verbatim>\<open>JSON.parse\<close> that knows
  the value of one text and throws on every other.
\<close>

fun json_path :: "'n json \<Rightarrow> string list \<Rightarrow> 'n json option" where
  "json_path v [] = Some v"
| "json_path v (k # ks) = (case own_prop v k of None \<Rightarrow> None | Some w \<Rightarrow> json_path w ks)"

definition parse_only :: "string \<Rightarrow> 'n json \<Rightarrow> string \<Rightarrow> 'n json option" where
  "parse_only text v t = (if t = text then Some v else None)"

section \<open>Searching and joining strings\<close>

text \<open>\<open>str_includes\<close> holds exactly when the needle is a contiguous part of the text.\<close>

lemma str_includes_iff: "str_includes s needle \<longleftrightarrow> (\<exists>pre post. s = pre @ needle @ post)"
proof (induction s)
  case Nil
  show ?case by auto
next
  case (Cons c cs)
  show ?case
  proof
    assume "str_includes (c # cs) needle"
    then consider "take (length needle) (c # cs) = needle" | "str_includes cs needle"
      by auto
    then show "\<exists>pre post. c # cs = pre @ needle @ post"
    proof cases
      case 1
      then have "c # cs = [] @ needle @ drop (length needle) (c # cs)"
        by (metis append_Nil append_take_drop_id)
      then show ?thesis by blast
    next
      case 2
      with Cons.IH obtain pre post where "cs = pre @ needle @ post" by blast
      then have "c # cs = (c # pre) @ needle @ post" by simp
      then show ?thesis by blast
    qed
  next
    assume "\<exists>pre post. c # cs = pre @ needle @ post"
    then obtain pre post where e: "c # cs = pre @ needle @ post" by blast
    show "str_includes (c # cs) needle"
    proof (cases pre)
      case Nil
      with e have "take (length needle) (c # cs) = needle" by simp
      then show ?thesis by simp
    next
      case (Cons d pre')
      with e have "cs = pre' @ needle @ post" by simp
      with Cons.IH have "str_includes cs needle" by blast
      then show ?thesis by simp
    qed
  qed
qed

section \<open>Joining and printing schema-conforming arguments\<close>

lemma join_Cons: "join sep (x # xs) = x @ concat (map (\<lambda>a. sep @ a) xs)"
  by (induction xs arbitrary: x) simp_all

lemma tool_command_format:
  "tool_command num_str target ports probes = spec_command num_str target ports probes"
  by (cases ports; cases probes)
     (simp_all add: tool_command_def tool_args_def spec_command_def join_Cons o_def)

lemma sequence_strings:
  "sequence (map ((\<lambda>x. if x = JNull then Inr [] else to_string num_str x) \<circ> JStr) ts) = Inr ts"
  by (induction ts) simp_all

lemma sequence_numbers:
  "sequence (map ((\<lambda>x. if x = JNull then Inr [] else to_string num_str x) \<circ> JNum) ps) =
   Inr (map num_str ps)"
  by (induction ps) simp_all

lemma sequence_probes: "sequence (map (to_string num_str \<circ> JStr) qs) = Inr qs"
  by (induction qs) simp_all

lemma js_join_strings: "js_join num_str sep (JArr (map JStr ts)) = Inr (join sep ts)"
  by (simp add: js_join_def sequence_strings)

lemma js_join_numbers: "js_join num_str sep (JArr (map JNum ps)) = Inr (join sep (map num_str ps))"
  by (simp add: js_join_def sequence_numbers)

lemma ports_part_typed:
  "ports_part num_str (map_option (\<lambda>ps. JArr (map JNum ps)) ports) =
   Inr (case ports of
          Some ps \<Rightarrow> if ps \<noteq> [] then [''-p'', join '','' (map num_str ps)] else []
        | None \<Rightarrow> [])"
  by (cases ports) (simp_all add: ports_part_def js_join_numbers)

lemma probes_part_typed:
  "probes_part num_str (map_option (\<lambda>qs. JArr (map JStr qs)) probes) =
   Inr (case probes of
          Some qs \<Rightarrow> if qs \<noteq> [] then map (\<lambda>probe. ''-'' @ probe) qs else []
        | None \<Rightarrow> [])"
  by (cases probes) (simp_all add: probes_part_def sequence_probes)

text \<open>
  On arguments that conform to the schema, the manual fallback builds the command
  the tool callback builds.
\<close>

lemma manual_command_typed:
  assumes "target \<noteq> []"
    and "own_prop args ''target'' = Some (JArr (map JStr target))"
    and "own_prop args ''ports'' = map_option (\<lambda>ps. JArr (map JNum ps)) ports"
    and "own_prop args ''probes'' = map_option (\<lambda>qs. JArr (map JStr qs)) probes"
  shows "manual_command num_str args = Inr (Some (tool_command num_str target ports probes))"
proof -
  from assms(2) have "args \<noteq> JNull" by auto
  then have rd: "read_prop args ''target'' = Inr (Some (JArr (map JStr target)))"
    by (simp add: read_prop_def assms(2))
  have pp: "ports_part num_str (own_prop args ''ports'') =
      Inr (case ports of
             Some ps \<Rightarrow> if ps \<noteq> [] then [''-p'', join '','' (map num_str ps)] else []
           | None \<Rightarrow> [])"
    unfolding assms(3) by (rule ports_part_typed)
  have qq: "probes_part num_str (own_prop args ''probes'') =
      Inr (case probes of
             Some qs \<Rightarrow> if qs \<noteq> [] then map (\<lambda>probe. ''-'' @ probe) qs else []
           | None \<Rightarrow> [])"
    unfolding assms(4) by (rule probes_part_typed)
  show ?thesis
    unfolding manual_command_def rd pp qq tool_command_def tool_args_def
    using assms(1) by (simp add: js_join_strings)
qed

section \<open>What the manual block does with a parsed body\<close>

lemma handler_step_manual:
  assumes "\<not> str_includes (accept_of req) ''application/json'' \<or>
           \<not> str_includes (accept_of req) ''text/event-stream''"
    and "req_method req = ''POST''"
    and "parse (body_text req) = Some data"
  shows "handler_step num_str parse req =
     (case manual num_str data of
        Inl e \<Rightarrow> ([ConsoleError ''Manual fallback error'' e], hand_on (forward req))
      | Inr (Some r) \<Rightarrow> ([], Reply r)
      | Inr None \<Rightarrow> ([], hand_on (forward req)))"
  using assms(1) unfolding handler_step_def Let_def assms(2,3) by auto

lemma handler_step_part000_manual:
  assumes "req_method req = ''POST''"
    and "parse (body_text req) = Some data"
  shows "handler_step_part000 num_str parse req =
     (case manual num_str data of
        Inl e \<Rightarrow>
          ([ConsoleLog ''Incoming Accept header:'' (accept_of req),
            ConsoleError ''manual handler parse error'' e],
           hand_on (forward_part000 True req))
      | Inr (Some r) \<Rightarrow> ([ConsoleLog ''Incoming Accept header:'' (accept_of req)], Reply r)
      | Inr None \<Rightarrow>
          ([ConsoleLog ''Incoming Accept header:'' (accept_of req)],
           hand_on (forward_part000 True req)))"
  unfolding handler_step_part000_def Let_def assms
  by (simp split: sum.split option.split)

lemma manual_initialize:
  assumes "own_prop data ''method'' = Some (JStr ''initialize'')"
  shows "manual num_str data = Inr (Some (initialize_response (own_prop data ''id'')))"
proof -
  from assms have "data \<noteq> JNull" by auto
  then show ?thesis by (simp add: manual_def assms)
qed

lemma manual_tools_list:
  assumes "own_prop data ''method'' = Some (JStr ''tools/list'')"
  shows "manual num_str data = Inr (Some (tools_list_response (own_prop data ''id'')))"
proof -
  from assms have "data \<noteq> JNull" by auto
  then show ?thesis by (simp add: manual_def assms)
qed

lemma manual_tools_call:
  assumes "own_prop data ''method'' = Some (JStr ''tools/call'')"
    and "own_prop data ''params'' = Some p"
    and "own_prop p ''name'' = Some (JStr ''httpx'')"
  shows "manual num_str data =
     (case manual_command num_str
             (case own_prop p ''arguments'' of None \<Rightarrow> JObj [] | Some a \<Rightarrow> a) of
        Inl e \<Rightarrow> Inl e
      | Inr None \<Rightarrow> Inr (Some (target_required (own_prop data ''id'')))
      | Inr (Some command) \<Rightarrow> Inr (Some (call_result (own_prop data ''id'') command)))"
proof -
  from assms(1) have d: "data \<noteq> JNull" by auto
  from assms(3) have t: "truthy p" by (cases p) auto
  show ?thesis using d t by (simp add: manual_def assms Let_def)
qed

text \<open>
  Values that break the declared schema go into the command as they print: strings
  and \<^verbatim>\<open>null\<close> among the ports, a number, a boolean and \<^verbatim>\<open>null\<close> among the
  probes.
\<close>

lemma schema_not_checked:
  "manual_command num_str
     (JObj [(''target'', JArr [JStr ''a'']),
            (''ports'', JArr [JStr ''x y'', JNull]),
            (''probes'', JArr [JNum n, JBool True, JNull])])
   = Inr (Some (''httpx -u a -silent -p x y, -'' @ num_str n @ '' -true -null''))"
  by (simp add: manual_command_def read_prop_def js_join_def ports_part_def probes_part_def)

lemma manual_command_no_target:
  assumes "args \<noteq> JNull"
    and "own_prop args ''target'' = None \<or> own_prop args ''target'' = Some (JArr [])"
  shows "manual_command num_str args = Inr None"
  using assms by (auto simp add: manual_command_def read_prop_def)

lemma manual_command_agree:
  assumes "a1 \<noteq> JNull" and "a2 \<noteq> JNull"
    and "own_prop a1 ''target'' = own_prop a2 ''target''"
    and "own_prop a1 ''ports'' = own_prop a2 ''ports''"
    and "own_prop a1 ''probes'' = own_prop a2 ''probes''"
  shows "manual_command num_str a1 = manual_command num_str a2"
  using assms(1,2) unfolding manual_command_def read_prop_def assms(3,4,5) by simp

text \<open>Flags appended to an argument list end up behind the joined list, a space before each.\<close>

lemma append_single: "(@) [c] = (#) c"
  by (rule ext) simp

lemma flags_concat:
  "concat (map (\<lambda>a. '' '' @ a) (map (\<lambda>p. ''-'' @ p) qs)) = concat (map (\<lambda>p. '' -'' @ p) qs)"
  by (induction qs) simp_all

lemma join_flags:
  "join '' '' (x # xs @ map (\<lambda>p. ''-'' @ p) qs) =
   join '' '' (x # xs) @ concat (map (\<lambda>p. '' -'' @ p) qs)"
  by (simp only: join_Cons map_append concat_append flags_concat append_assoc)

section \<open>The rebuild of the request\<close>

text \<open>
  The rebuild succeeds exactly for a request without a body, and then gives the
  incoming request with its \<^verbatim>\<open>accept\<close> header set.
\<close>

lemma forward_no_body:
  assumes "req_body req = None"
  shows "forward req =
     Inr \<lparr>req_url = req_url req, req_method = req_method req,
          req_headers = (req_headers req)(''accept'' \<mapsto> ''application/json, text/event-stream''),
          req_body = None\<rparr>"
  by (simp add: forward_def new_request_def assms)

lemma forward_with_body:
  assumes "req_body req = Some t"
  shows "forward req = Inl TypeError"
  by (simp add: forward_def new_request_def assms)

lemma forward_Inr:
  assumes "forward req = Inr q"
  shows "req_body req = None \<and>
     q = \<lparr>req_url = req_url req, req_method = req_method req,
          req_headers = (req_headers req)(''accept'' \<mapsto> ''application/json, text/event-stream''),
          req_body = None\<rparr>"
  using assms by (cases "req_body req") (auto simp add: forward_def new_request_def)

lemma forward_part000_with_body:
  assumes "req_body req = Some t"
  shows "forward_part000 used req = Inl TypeError"
  by (simp add: forward_part000_def clone_def new_request_def assms Let_def)

lemma forward_part000_Inr:
  assumes "forward_part000 used req = Inr q"
  shows "req_body req = None \<and>
     q = \<lparr>req_url = req_url req, req_method = req_method req,
          req_headers =
            (if \<not> str_includes (accept_of req) ''text/event-stream''
             then (req_headers req)(''accept'' \<mapsto> ''application/json, text/event-stream'')
             else req_headers req),
          req_body = None\<rparr>"
  using assms
  by (cases "req_body req")
     (auto simp add: forward_part000_def clone_def new_request_def Let_def split: if_splits)

lemma hand_on_Delegate: "hand_on rebuilt = Delegate q \<longleftrightarrow> rebuilt = Inr q"
  by (cases rebuilt) (simp_all add: hand_on_def)

lemma handler_step_delegates:
  assumes "handler_step num_str parse req = (out, Delegate q)"
  shows "forward req = Inr q"
  using assms
  by (auto simp add: handler_step_def Let_def hand_on_Delegate
        split: if_splits option.splits sum.splits)

lemma handler_step_part000_delegates:
  assumes "handler_step_part000 num_str parse req = (out, Delegate q)"
  shows "\<exists>used. forward_part000 used req = Inr q"
  using assms
  by (auto simp add: handler_step_part000_def Let_def hand_on_Delegate
        split: if_splits option.splits sum.splits)

section \<open>The command builder\<close>

text \<open>
  C1. For a target list with at least one element, optional ports and optional
  probes, both builders (the tool callback, and the manual fallback on the same
  arguments as they arrive in a request) return exactly \<^verbatim>\<open>httpx -u\<close>, the targets
  joined by commas in input order, \<^verbatim>\<open>-silent\<close>, then \<^verbatim>\<open>-p\<close> and the ports joined
  by commas only if ports are present and not empty, then for each probe in input
  order a space, \<^verbatim>\<open>-\<close> and the probe as it is.
\<close>

theorem command_builder_format:
  assumes "target \<noteq> []"
    and "own_prop args ''target'' = Some (JArr (map JStr target))"
    and "own_prop args ''ports'' = map_option (\<lambda>ps. JArr (map JNum ps)) ports"
    and "own_prop args ''probes'' = map_option (\<lambda>qs. JArr (map JStr qs)) probes"
  shows "tool_command num_str target ports probes = spec_command num_str target ports probes
       \<and> manual_command num_str args = Inr (Some (spec_command num_str target ports probes))"
  using manual_command_typed [OF assms, of num_str]
  by (simp add: tool_command_format)

theorem command_builder_format_witness:
  "tool_command port_str [''example.com'', ''test.org''] (Some [80, 443]) (Some [''title'', ''status-code''])
     = ''httpx -u example.com,test.org -silent -p 80,443 -title -status-code''
   \<and> manual_command port_str
       (JObj [(''target'', JArr [JStr ''example.com'', JStr ''test.org'']),
              (''ports'', JArr [JNum 80, JNum 443]),
              (''probes'', JArr [JStr ''title'', JStr ''status-code''])])
     = Inr (Some ''httpx -u example.com,test.org -silent -p 80,443 -title -status-code'')"
  using command_builder_format
    [of "[''example.com'', ''test.org'']"
        "JObj [(''target'', JArr [JStr ''example.com'', JStr ''test.org'']),
               (''ports'', JArr [JNum 80, JNum 443]),
               (''probes'', JArr [JStr ''title'', JStr ''status-code''])]"
        "Some [80, 443]" "Some [''title'', ''status-code'']" port_str]
  by (simp add: spec_command_def port_str_def decimal.simps)

text \<open>
  C9. The builders quote and escape nothing, and are not injective: the two distinct
  target lists \<^verbatim>\<open>["a,b"]\<close> and \<^verbatim>\<open>["a", "b"]\<close> give the same command, in the
  tool callback and in the manual fallback.
\<close>

theorem command_not_injective:
  "[''a,b''] \<noteq> [''a'', ''b'']
   \<and> tool_command num_str [''a,b''] None None = ''httpx -u a,b -silent''
   \<and> tool_command num_str [''a'', ''b''] None None = ''httpx -u a,b -silent''
   \<and> manual_command num_str (JObj [(''target'', JArr [JStr ''a,b''])])
       = Inr (Some ''httpx -u a,b -silent'')
   \<and> manual_command num_str (JObj [(''target'', JArr [JStr ''a'', JStr ''b''])])
       = Inr (Some ''httpx -u a,b -silent'')"
  by (simp add: tool_command_def tool_args_def manual_command_def read_prop_def js_join_def
        ports_part_def probes_part_def)

section \<open>The manual answers\<close>

text \<open>
  C6. A POST request on the manual path whose method is \<^verbatim>\<open>initialize\<close> is
  answered, whatever its \<^verbatim>\<open>id\<close>, with status 200 and a body that echoes the
  \<^verbatim>\<open>id\<close> and reports protocol version \<^verbatim>\<open>2025-03-26\<close>, the tool-listing
  capability, and server \<^verbatim>\<open>httpxfinish\<close> version \<^verbatim>\<open>1.0.0\<close>. In
  \<^verbatim>\<open>route.ts\<close> the manual path is the one taken when the accept header lacks one
  of the two modes; in \<^verbatim>\<open>part_000\<close> every POST takes it.
\<close>

theorem initialize_reply:
  assumes "req_method req = ''POST''"
    and "parse (body_text req) = Some data"
    and "own_prop data ''method'' = Some (JStr ''initialize'')"
  shows "(\<not> str_includes (accept_of req) ''application/json'' \<or>
          \<not> str_includes (accept_of req) ''text/event-stream'' \<longrightarrow>
            handler num_str parse coreHandler req =
              ([], Inr (initialize_response (own_prop data ''id''))))
       \<and> handler_part000 num_str parse baseHandler req =
            ([ConsoleLog ''Incoming Accept header:'' (accept_of req)],
             Inr (initialize_response (own_prop data ''id'')))
       \<and> status (initialize_response (own_prop data ''id'') :: 'n::ring_1 response) = 200
       \<and> own_prop (resp_body (initialize_response (own_prop data ''id''))) ''id''
            = own_prop data ''id''
       \<and> json_path (resp_body (initialize_response (own_prop data ''id'')))
            [''result'', ''protocolVersion''] = Some (JStr ''2025-03-26'')
       \<and> json_path (resp_body (initialize_response (own_prop data ''id'')))
            [''result'', ''capabilities'', ''tools'', ''listChanged''] = Some (JBool True)
       \<and> json_path (resp_body (initialize_response (own_prop data ''id'')))
            [''result'', ''serverInfo'', ''name''] = Some (JStr ''httpxfinish'')
       \<and> json_path (resp_body (initialize_response (own_prop data ''id'')))
            [''result'', ''serverInfo'', ''version''] = Some (JStr ''1.0.0'')"
proof -
  have m: "manual num_str data = Inr (Some (initialize_response (own_prop data ''id'')))"
    by (rule manual_initialize [OF assms(3)])
  have a: "\<not> str_includes (accept_of req) ''application/json'' \<or>
           \<not> str_includes (accept_of req) ''text/event-stream'' \<Longrightarrow>
           handler num_str parse coreHandler req = ([], Inr (initialize_response (own_prop data ''id'')))"
    using handler_step_manual [where req = req and parse = parse and data = data
        and num_str = num_str] assms(1,2)
    by (simp add: handler_def finish_def m)
  have b: "handler_part000 num_str parse baseHandler req =
            ([ConsoleLog ''Incoming Accept header:'' (accept_of req)],
             Inr (initialize_response (own_prop data ''id'')))"
    using handler_step_part000_manual [where req = req and parse = parse and data = data
        and num_str = num_str] assms(1,2)
    by (simp add: handler_part000_def finish_def m)
  have c: "own_prop (resp_body (initialize_response (own_prop data ''id''))) ''id''
            = own_prop data ''id''"
    by (simp add: initialize_response_def json_response_def manualInitialize_def id_entry_def
          split: option.split)
  show ?thesis
    using a b c
    by (simp add: initialize_response_def json_response_def manualInitialize_def)
qed

theorem initialize_reply_witness:
  \<open>handler port_str
     (parse_only ''{"jsonrpc":"2.0","id":7,"method":"initialize"}''
        (JObj [(''jsonrpc'', JStr ''2.0''), (''id'', JNum 7), (''method'', JStr ''initialize'')]))
     (\<lambda>q. json_response 406 JNull)
     \<lparr>req_url = ''https://host/mcp'', req_method = ''POST'',
      req_headers = [''accept'' \<mapsto> ''application/json''],
      req_body = Some ''{"jsonrpc":"2.0","id":7,"method":"initialize"}''\<rparr>
   = ([], Inr (initialize_response (Some (JNum 7))))
   \<and> status (initialize_response (Some (JNum 7)) :: int response) = 200\<close>
  using initialize_reply
    [where req = \<open>\<lparr>req_url = ''https://host/mcp'', req_method = ''POST'',
        req_headers = [''accept'' \<mapsto> ''application/json''],
        req_body = Some ''{"jsonrpc":"2.0","id":7,"method":"initialize"}''\<rparr>\<close>
      and parse = \<open>parse_only ''{"jsonrpc":"2.0","id":7,"method":"initialize"}''
        (JObj [(''jsonrpc'', JStr ''2.0''), (''id'', JNum 7), (''method'', JStr ''initialize'')])\<close>
      and data = \<open>JObj [(''jsonrpc'', JStr ''2.0''), (''id'', JNum (7::int)), (''method'', JStr ''initialize'')]\<close>
      and num_str = port_str and coreHandler = \<open>\<lambda>q. json_response 406 JNull\<close>]
  by (simp add: parse_only_def body_text_def accept_of_def)

text \<open>
  C7. A POST request on the manual path whose method is \<^verbatim>\<open>tools/list\<close> is answered
  with status 200 and a catalog of exactly one tool: its name is \<^verbatim>\<open>httpx\<close>, its
  input schema is an object whose only required property is \<^verbatim>\<open>target\<close> (an array
  of strings), with \<^verbatim>\<open>ports\<close> (an array of numbers) and \<^verbatim>\<open>probes\<close> (an array
  of strings) beside it.
\<close>

theorem tools_list_reply:
  assumes "req_method req = ''POST''"
    and "parse (body_text req) = Some data"
    and "own_prop data ''method'' = Some (JStr ''tools/list'')"
  shows "(\<not> str_includes (accept_of req) ''application/json'' \<or>
          \<not> str_includes (accept_of req) ''text/event-stream'' \<longrightarrow>
            handler num_str parse coreHandler req =
              ([], Inr (tools_list_response (own_prop data ''id''))))
       \<and> handler_part000 num_str parse baseHandler req =
            ([ConsoleLog ''Incoming Accept header:'' (accept_of req)],
             Inr (tools_list_response (own_prop data ''id'')))
       \<and> status (tools_list_response (own_prop data ''id'') :: 'n::ring_1 response) = 200
       \<and> json_path (resp_body (tools_list_response (own_prop data ''id'')))
            [''result'', ''tools''] = Some (JArr [catalog_entry])
       \<and> own_prop (catalog_entry :: 'n json) ''name'' = Some (JStr ''httpx'')
       \<and> json_path (catalog_entry :: 'n json) [''inputSchema'', ''type''] = Some (JStr ''object'')
       \<and> json_path (catalog_entry :: 'n json) [''inputSchema'', ''required'']
            = Some (JArr [JStr ''target''])
       \<and> json_path (catalog_entry :: 'n json) [''inputSchema'', ''properties'']
            = Some (JObj
                [(''target'', JObj [(''type'', JStr ''array''), (''items'', JObj [(''type'', JStr ''string'')])]),
                 (''ports'', JObj [(''type'', JStr ''array''), (''items'', JObj [(''type'', JStr ''number'')])]),
                 (''probes'', JObj [(''type'', JStr ''array''), (''items'', JObj [(''type'', JStr ''string'')])])])"
proof -
  have m: "manual num_str data = Inr (Some (tools_list_response (own_prop data ''id'')))"
    by (rule manual_tools_list [OF assms(3)])
  have a: "\<not> str_includes (accept_of req) ''application/json'' \<or>
           \<not> str_includes (accept_of req) ''text/event-stream'' \<Longrightarrow>
           handler num_str parse coreHandler req = ([], Inr (tools_list_response (own_prop data ''id'')))"
    using handler_step_manual [where req = req and parse = parse and data = data
        and num_str = num_str] assms(1,2)
    by (simp add: handler_def finish_def m)
  have b: "handler_part000 num_str parse baseHandler req =
            ([ConsoleLog ''Incoming Accept header:'' (accept_of req)],
             Inr (tools_list_response (own_prop data ''id'')))"
    using handler_step_part000_manual [where req = req and parse = parse and data = data
        and num_str = num_str] assms(1,2)
    by (simp add: handler_part000_def finish_def m)
  have c: "json_path (resp_body (tools_list_response (own_prop data ''id'')))
            [''result'', ''tools''] = Some (JArr [catalog_entry :: 'n json])"
    by (simp add: tools_list_response_def json_response_def id_entry_def split: option.split)
  show ?thesis
    using a b c
    by (simp add: tools_list_response_def json_response_def catalog_entry_def array_of_def)
qed

theorem tools_list_reply_witness:
  \<open>handler port_str
     (parse_only ''{"jsonrpc":"2.0","id":"a1","method":"tools/list"}''
        (JObj [(''jsonrpc'', JStr ''2.0''), (''id'', JStr ''a1''), (''method'', JStr ''tools/list'')]))
     (\<lambda>q. json_response 406 JNull)
     \<lparr>req_url = ''https://host/mcp'', req_method = ''POST'',
      req_headers = Map.empty,
      req_body = Some ''{"jsonrpc":"2.0","id":"a1","method":"tools/list"}''\<rparr>
   = ([], Inr (tools_list_response (Some (JStr ''a1''))))
   \<and> json_path (resp_body (tools_list_response (Some (JStr ''a1'')) :: int response))
        [''result'', ''tools''] = Some (JArr [catalog_entry])\<close>
  using tools_list_reply
    [where req = \<open>\<lparr>req_url = ''https://host/mcp'', req_method = ''POST'',
        req_headers = Map.empty,
        req_body = Some ''{"jsonrpc":"2.0","id":"a1","method":"tools/list"}''\<rparr>\<close>
      and parse = \<open>parse_only ''{"jsonrpc":"2.0","id":"a1","method":"tools/list"}''
        (JObj [(''jsonrpc'', JStr ''2.0''), (''id'', JStr ''a1''), (''method'', JStr ''tools/list'')])\<close>
      and data = \<open>JObj [(''jsonrpc'', JStr ''2.0''), (''id'', JStr ''a1''), (''method'', JStr ''tools/list'')] :: int json\<close>
      and num_str = port_str and coreHandler = \<open>\<lambda>q. json_response 406 JNull\<close>]
  by (simp add: parse_only_def body_text_def accept_of_def)

section \<open>Errors caught in the manual block\<close>

text \<open>
  What the handlers do when \<^verbatim>\<open>JSON.parse\<close> rejects the body of a POST request on
  the manual path: the exception is caught and logged, and the rebuild follows. A
  request that has a body makes the rebuild throw, outside the \<^verbatim>\<open>try\<close> block;
  only a POST without any body reaches the framework handler.
\<close>

lemma parse_failure_outcome:
  assumes "req_method req = ''POST''"
    and "parse (body_text req) = None"
  shows "(\<not> str_includes (accept_of req) ''application/json'' \<or>
          \<not> str_includes (accept_of req) ''text/event-stream'' \<longrightarrow>
            handler_step num_str parse req =
              ([ConsoleError ''Manual fallback error'' SyntaxError],
               (case req_body req of
                  None \<Rightarrow>
                    Delegate \<lparr>req_url = req_url req, req_method = ''POST'',
                      req_headers =
                        (req_headers req)(''accept'' \<mapsto> ''application/json, text/event-stream''),
                      req_body = None\<rparr>
                | Some t \<Rightarrow> Throw TypeError)))
       \<and> handler_step_part000 num_str parse req =
            ([ConsoleLog ''Incoming Accept header:'' (accept_of req),
              ConsoleError ''manual handler parse error'' SyntaxError],
             (case req_body req of
                None \<Rightarrow>
                  Delegate \<lparr>req_url = req_url req, req_method = ''POST'',
                    req_headers =
                      (if \<not> str_includes (accept_of req) ''text/event-stream''
                       then (req_headers req)(''accept'' \<mapsto> ''application/json, text/event-stream'')
                       else req_headers req),
                    req_body = None\<rparr>
              | Some t \<Rightarrow> Throw TypeError))"
  by (cases "req_body req")
     (auto simp add: handler_step_def handler_step_part000_def Let_def assms hand_on_def
        forward_def forward_part000_def clone_def new_request_def)

text \<open>
  C4 says that a POST request on the manual path whose body is not JSON is logged
  and falls through to the delegation path, never surfacing as a failure. At the
  request below, whose body is the text \<^verbatim>\<open>{"jsonrpc":\<close>, the handlers of
  \<^verbatim>\<open>route.ts\<close> and \<^verbatim>\<open>part_000\<close> log the parse error and then throw a
  \<^verbatim>\<open>TypeError\<close> from the rebuild: the framework handler is not called and the
  handler ends with an uncaught exception.
\<close>

theorem parse_failure_rethrown:
  \<open>handler port_str
     (parse_only ''{"jsonrpc":"2.0","id":1,"method":"ping"}''
        (JObj [(''jsonrpc'', JStr ''2.0''), (''id'', JNum 1), (''method'', JStr ''ping'')]))
     (\<lambda>q. json_response 202 (JStr (req_method q)))
     \<lparr>req_url = ''https://host/mcp'', req_method = ''POST'',
      req_headers = [''accept'' \<mapsto> ''text/event-stream''],
      req_body = Some ''{"jsonrpc":''\<rparr>
   = ([ConsoleError ''Manual fallback error'' SyntaxError], Inl TypeError)
   \<and> handler_part000 port_str
     (parse_only ''{"jsonrpc":"2.0","id":1,"method":"ping"}''
        (JObj [(''jsonrpc'', JStr ''2.0''), (''id'', JNum 1), (''method'', JStr ''ping'')]))
     (\<lambda>q. json_response 202 (JStr (req_method q)))
     \<lparr>req_url = ''https://host/mcp'', req_method = ''POST'',
      req_headers = [''accept'' \<mapsto> ''text/event-stream''],
      req_body = Some ''{"jsonrpc":''\<rparr>
   = ([ConsoleLog ''Incoming Accept header:'' ''text/event-stream'',
       ConsoleError ''manual handler parse error'' SyntaxError], Inl TypeError)\<close>
  by (simp add: handler_def handler_step_def handler_part000_def handler_step_part000_def
        finish_def hand_on_def forward_def forward_part000_def clone_def new_request_def
        accept_of_def body_text_def parse_only_def)

section \<open>The answer to a call without targets\<close>

text \<open>
  Where the \<^verbatim>\<open>arguments\<close> of a \<^verbatim>\<open>tools/call\<close> for \<^verbatim>\<open>httpx\<close> are absent or
  any value but \<^verbatim>\<open>null\<close>, and \<^verbatim>\<open>target\<close> is absent or an empty list, the
  answer is the one the specification describes: status 400, error code -32602,
  message "target is required", the \<^verbatim>\<open>id\<close> echoed, and no command built.
\<close>

theorem target_required_reply:
  assumes "req_method req = ''POST''"
    and "parse (body_text req) = Some data"
    and "own_prop data ''method'' = Some (JStr ''tools/call'')"
    and "own_prop data ''params'' = Some p"
    and "own_prop p ''name'' = Some (JStr ''httpx'')"
    and "args = (case own_prop p ''arguments'' of None \<Rightarrow> JObj [] | Some a \<Rightarrow> a)"
    and "args \<noteq> JNull"
    and "own_prop args ''target'' = None \<or> own_prop args ''target'' = Some (JArr [])"
  shows "(\<not> str_includes (accept_of req) ''application/json'' \<or>
          \<not> str_includes (accept_of req) ''text/event-stream'' \<longrightarrow>
            handler num_str parse coreHandler req =
              ([], Inr (target_required (own_prop data ''id''))))
       \<and> handler_part000 num_str parse baseHandler req =
            ([ConsoleLog ''Incoming Accept header:'' (accept_of req)],
             Inr (target_required (own_prop data ''id'')))
       \<and> manual_command num_str args = Inr None
       \<and> status (target_required (own_prop data ''id'')) = 400
       \<and> own_prop (resp_body (target_required (own_prop data ''id''))) ''id''
            = own_prop data ''id''
       \<and> own_prop (resp_body (target_required (own_prop data ''id''))) ''error''
            = Some (JObj [(''code'', JNum (- 32602)), (''message'', JStr ''target is required'')])
       \<and> own_prop (resp_body (target_required (own_prop data ''id''))) ''result'' = None"
proof -
  have mc: "manual_command num_str args = Inr None"
    by (rule manual_command_no_target [OF assms(7,8)])
  have m: "manual num_str data = Inr (Some (target_required (own_prop data ''id'')))"
    using manual_tools_call [OF assms(3,4,5), of num_str] mc
    by (simp add: assms(6) [symmetric])
  have a: "\<not> str_includes (accept_of req) ''application/json'' \<or>
           \<not> str_includes (accept_of req) ''text/event-stream'' \<Longrightarrow>
           handler num_str parse coreHandler req = ([], Inr (target_required (own_prop data ''id'')))"
    using handler_step_manual [where req = req and parse = parse and data = data
        and num_str = num_str] assms(1,2)
    by (simp add: handler_def finish_def m)
  have b: "handler_part000 num_str parse baseHandler req =
            ([ConsoleLog ''Incoming Accept header:'' (accept_of req)],
             Inr (target_required (own_prop data ''id'')))"
    using handler_step_part000_manual [where req = req and parse = parse and data = data
        and num_str = num_str] assms(1,2)
    by (simp add: handler_part000_def finish_def m)
  have c: "own_prop (resp_body (target_required (own_prop data ''id''))) ''id''
            = own_prop data ''id''"
    by (simp add: target_required_def json_response_def id_entry_def split: option.split)
  have d: "own_prop (resp_body (target_required (own_prop data ''id''))) ''error''
            = Some (JObj [(''code'', JNum (- 32602)), (''message'', JStr ''target is required'')])"
    by (simp add: target_required_def json_response_def id_entry_def split: option.split)
  have e: "own_prop (resp_body (target_required (own_prop data ''id''))) ''result'' = None"
    by (simp add: target_required_def json_response_def id_entry_def split: option.split)
  have f: "status (target_required (own_prop data ''id'')) = 400"
    by (simp add: target_required_def json_response_def)
  from a b mc c d e f show ?thesis by blast
qed

theorem target_required_reply_witness:
  \<open>handler port_str
     (parse_only ''{"jsonrpc":"2.0","id":3,"method":"tools/call","params":{"name":"httpx","arguments":{"target":[]}}}''
        (JObj [(''jsonrpc'', JStr ''2.0''), (''id'', JNum 3), (''method'', JStr ''tools/call''),
               (''params'', JObj [(''name'', JStr ''httpx''),
                                  (''arguments'', JObj [(''target'', JArr [])])])]))
     (\<lambda>q. json_response 406 JNull)
     \<lparr>req_url = ''https://host/mcp'', req_method = ''POST'',
      req_headers = [''accept'' \<mapsto> ''application/json''],
      req_body = Some ''{"jsonrpc":"2.0","id":3,"method":"tools/call","params":{"name":"httpx","arguments":{"target":[]}}}''\<rparr>
   = ([], Inr (target_required (Some (JNum 3))))
   \<and> status (target_required (Some (JNum 3)) :: int response) = 400\<close>
  using target_required_reply
    [where req = \<open>\<lparr>req_url = ''https://host/mcp'', req_method = ''POST'',
        req_headers = [''accept'' \<mapsto> ''application/json''],
        req_body = Some ''{"jsonrpc":"2.0","id":3,"method":"tools/call","params":{"name":"httpx","arguments":{"target":[]}}}''\<rparr>\<close>
      and parse = \<open>parse_only ''{"jsonrpc":"2.0","id":3,"method":"tools/call","params":{"name":"httpx","arguments":{"target":[]}}}''
        (JObj [(''jsonrpc'', JStr ''2.0''), (''id'', JNum 3), (''method'', JStr ''tools/call''),
               (''params'', JObj [(''name'', JStr ''httpx''),
                                  (''arguments'', JObj [(''target'', JArr [])])])])\<close>
      and data = \<open>JObj [(''jsonrpc'', JStr ''2.0''), (''id'', JNum (3::int)), (''method'', JStr ''tools/call''),
               (''params'', JObj [(''name'', JStr ''httpx''),
                                  (''arguments'', JObj [(''target'', JArr [])])])]\<close>
      and p = \<open>JObj [(''name'', JStr ''httpx''), (''arguments'', JObj [(''target'', JArr [])])]\<close>
      and args = \<open>JObj [(''target'', JArr [])]\<close>
      and num_str = port_str and coreHandler = \<open>\<lambda>q. json_response 406 JNull\<close>]
  by (simp add: parse_only_def body_text_def accept_of_def)

text \<open>
  C2 says that every POST request on the manual path that calls \<^verbatim>\<open>httpx\<close> with
  \<^verbatim>\<open>target\<close> absent or empty is answered with status 400 and the error
  -32602 "target is required". The request below calls \<^verbatim>\<open>httpx\<close> with
  \<^verbatim>\<open>"arguments": null\<close>, so its target is absent. The default \<^verbatim>\<open>args = {}\<close>
  covers only a missing \<^verbatim>\<open>arguments\<close>; here reading \<^verbatim>\<open>args.target\<close> throws,
  the exception is logged, and the rebuild of the request, whose body has been read,
  throws again outside the \<^verbatim>\<open>try\<close> block. No 400 is sent.
\<close>

theorem null_arguments_not_answered:
  \<open>own_prop (JNull :: int json) ''target'' = None
   \<and> handler port_str
     (parse_only ''{"jsonrpc":"2.0","id":3,"method":"tools/call","params":{"name":"httpx","arguments":null}}''
        (JObj [(''jsonrpc'', JStr ''2.0''), (''id'', JNum 3), (''method'', JStr ''tools/call''),
               (''params'', JObj [(''name'', JStr ''httpx''), (''arguments'', JNull)])]))
     (\<lambda>q. json_response 202 (JStr (req_method q)))
     \<lparr>req_url = ''https://host/mcp'', req_method = ''POST'',
      req_headers = [''accept'' \<mapsto> ''application/json''],
      req_body = Some ''{"jsonrpc":"2.0","id":3,"method":"tools/call","params":{"name":"httpx","arguments":null}}''\<rparr>
   = ([ConsoleError ''Manual fallback error'' TypeError], Inl TypeError)
   \<and> handler_part000 port_str
     (parse_only ''{"jsonrpc":"2.0","id":3,"method":"tools/call","params":{"name":"httpx","arguments":null}}''
        (JObj [(''jsonrpc'', JStr ''2.0''), (''id'', JNum 3), (''method'', JStr ''tools/call''),
               (''params'', JObj [(''name'', JStr ''httpx''), (''arguments'', JNull)])]))
     (\<lambda>q. json_response 202 (JStr (req_method q)))
     \<lparr>req_url = ''https://host/mcp'', req_method = ''POST'',
      req_headers = [''accept'' \<mapsto> ''application/json''],
      req_body = Some ''{"jsonrpc":"2.0","id":3,"method":"tools/call","params":{"name":"httpx","arguments":null}}''\<rparr>
   = ([ConsoleLog ''Incoming Accept header:'' ''application/json'',
       ConsoleError ''manual handler parse error'' TypeError], Inl TypeError)\<close>
  by (simp add: handler_def handler_step_def handler_part000_def handler_step_part000_def
        finish_def hand_on_def forward_def forward_part000_def clone_def new_request_def
        accept_of_def body_text_def parse_only_def manual_def manual_command_def read_prop_def)

section \<open>Purity of command generation and verbatim probes\<close>

text \<open>
  C8. The command is a function of \<^verbatim>\<open>target\<close>, \<^verbatim>\<open>ports\<close> and \<^verbatim>\<open>probes\<close>
  alone: two \<^verbatim>\<open>tools/call\<close> requests whose arguments agree on these three give the
  same command, however else the requests differ (URL, headers, \<^verbatim>\<open>id\<close>, further
  arguments). Building it writes nothing to the log: \<^verbatim>\<open>route.ts\<close> logs nothing
  on this path, and the only line of \<^verbatim>\<open>part_000\<close> is the accept header it logs
  on every request before it looks at the body.
\<close>

theorem command_generation_pure:
  assumes "req_method r1 = ''POST''" and "req_method r2 = ''POST''"
    and "parse (body_text r1) = Some d1" and "parse (body_text r2) = Some d2"
    and "own_prop d1 ''method'' = Some (JStr ''tools/call'')"
    and "own_prop d2 ''method'' = Some (JStr ''tools/call'')"
    and "own_prop d1 ''params'' = Some p1" and "own_prop d2 ''params'' = Some p2"
    and "own_prop p1 ''name'' = Some (JStr ''httpx'')"
    and "own_prop p2 ''name'' = Some (JStr ''httpx'')"
    and "a1 = (case own_prop p1 ''arguments'' of None \<Rightarrow> JObj [] | Some a \<Rightarrow> a)"
    and "a2 = (case own_prop p2 ''arguments'' of None \<Rightarrow> JObj [] | Some a \<Rightarrow> a)"
    and "a1 \<noteq> JNull" and "a2 \<noteq> JNull"
    and "own_prop a1 ''target'' = own_prop a2 ''target''"
    and "own_prop a1 ''ports'' = own_prop a2 ''ports''"
    and "own_prop a1 ''probes'' = own_prop a2 ''probes''"
    and "manual_command num_str a1 = Inr (Some c)"
  shows "manual_command num_str a2 = Inr (Some c)
       \<and> (\<not> str_includes (accept_of r1) ''application/json'' \<or>
          \<not> str_includes (accept_of r1) ''text/event-stream'' \<longrightarrow>
            handler_step num_str parse r1 = ([], Reply (call_result (own_prop d1 ''id'') c)))
       \<and> (\<not> str_includes (accept_of r2) ''application/json'' \<or>
          \<not> str_includes (accept_of r2) ''text/event-stream'' \<longrightarrow>
            handler_step num_str parse r2 = ([], Reply (call_result (own_prop d2 ''id'') c)))
       \<and> handler_step_part000 num_str parse r1 =
            ([ConsoleLog ''Incoming Accept header:'' (accept_of r1)],
             Reply (call_result (own_prop d1 ''id'') c))
       \<and> handler_step_part000 num_str parse r2 =
            ([ConsoleLog ''Incoming Accept header:'' (accept_of r2)],
             Reply (call_result (own_prop d2 ''id'') c))"
proof -
  have c2: "manual_command num_str a2 = Inr (Some c)"
    using manual_command_agree [OF assms(13,14,15,16,17), of num_str] assms(18) by simp
  have m1: "manual num_str d1 = Inr (Some (call_result (own_prop d1 ''id'') c))"
    using manual_tools_call [OF assms(5,7,9), of num_str] assms(18)
    by (simp add: assms(11) [symmetric])
  have m2: "manual num_str d2 = Inr (Some (call_result (own_prop d2 ''id'') c))"
    using manual_tools_call [OF assms(6,8,10), of num_str] c2
    by (simp add: assms(12) [symmetric])
  have h1: "\<not> str_includes (accept_of r1) ''application/json'' \<or>
           \<not> str_includes (accept_of r1) ''text/event-stream'' \<Longrightarrow>
           handler_step num_str parse r1 = ([], Reply (call_result (own_prop d1 ''id'') c))"
    using handler_step_manual [where req = r1 and parse = parse and data = d1
        and num_str = num_str] assms(1,3)
    by (simp add: m1)
  have h2: "\<not> str_includes (accept_of r2) ''application/json'' \<or>
           \<not> str_includes (accept_of r2) ''text/event-stream'' \<Longrightarrow>
           handler_step num_str parse r2 = ([], Reply (call_result (own_prop d2 ''id'') c))"
    using handler_step_manual [where req = r2 and parse = parse and data = d2
        and num_str = num_str] assms(2,4)
    by (simp add: m2)
  have k1: "handler_step_part000 num_str parse r1 =
            ([ConsoleLog ''Incoming Accept header:'' (accept_of r1)],
             Reply (call_result (own_prop d1 ''id'') c))"
    using handler_step_part000_manual [where req = r1 and parse = parse and data = d1
        and num_str = num_str] assms(1,3)
    by (simp add: m1)
  have k2: "handler_step_part000 num_str parse r2 =
            ([ConsoleLog ''Incoming Accept header:'' (accept_of r2)],
             Reply (call_result (own_prop d2 ''id'') c))"
    using handler_step_part000_manual [where req = r2 and parse = parse and data = d2
        and num_str = num_str] assms(2,4)
    by (simp add: m2)
  from c2 h1 h2 k1 k2 show ?thesis by blast
qed

theorem command_generation_pure_witness:
  \<open>handler_step port_str
     (\<lambda>t. if t = ''{"jsonrpc":"2.0","id":1,"method":"tools/call","params":{"name":"httpx","arguments":{"target":["example.com"],"ports":[80]}}}''
            then Some (JObj [(''jsonrpc'', JStr ''2.0''), (''id'', JNum 1), (''method'', JStr ''tools/call''),
          (''params'', JObj [(''name'', JStr ''httpx''), (''arguments'', JObj [(''target'', JArr [JStr ''example.com'']), (''ports'', JArr [JNum 80])])])])
          else if t = ''{"id":"b","method":"tools/call","params":{"arguments":{"ports":[80],"note":"x","target":["example.com"]},"name":"httpx"}}''
            then Some (JObj [(''id'', JStr ''b''), (''method'', JStr ''tools/call''),
          (''params'', JObj [(''arguments'', JObj [(''ports'', JArr [JNum 80]), (''note'', JStr ''x''), (''target'', JArr [JStr ''example.com''])]), (''name'', JStr ''httpx'')])])
          else None)
     \<lparr>req_url = ''https://host/mcp'', req_method = ''POST'',
      req_headers = [''accept'' \<mapsto> ''application/json''],
      req_body = Some ''{"jsonrpc":"2.0","id":1,"method":"tools/call","params":{"name":"httpx","arguments":{"target":["example.com"],"ports":[80]}}}''\<rparr>
   = ([], Reply (call_result (Some (JNum 1)) ''httpx -u example.com -silent -p 80''))
   \<and> handler_step port_str
     (\<lambda>t. if t = ''{"jsonrpc":"2.0","id":1,"method":"tools/call","params":{"name":"httpx","arguments":{"target":["example.com"],"ports":[80]}}}''
            then Some (JObj [(''jsonrpc'', JStr ''2.0''), (''id'', JNum 1), (''method'', JStr ''tools/call''),
          (''params'', JObj [(''name'', JStr ''httpx''), (''arguments'', JObj [(''target'', JArr [JStr ''example.com'']), (''ports'', JArr [JNum 80])])])])
          else if t = ''{"id":"b","method":"tools/call","params":{"arguments":{"ports":[80],"note":"x","target":["example.com"]},"name":"httpx"}}''
            then Some (JObj [(''id'', JStr ''b''), (''method'', JStr ''tools/call''),
          (''params'', JObj [(''arguments'', JObj [(''ports'', JArr [JNum 80]), (''note'', JStr ''x''), (''target'', JArr [JStr ''example.com''])]), (''name'', JStr ''httpx'')])])
          else None)
     \<lparr>req_url = ''https://other/mcp?x=1'', req_method = ''POST'',
      req_headers = [''user-agent'' \<mapsto> ''curl''],
      req_body = Some ''{"id":"b","method":"tools/call","params":{"arguments":{"ports":[80],"note":"x","target":["example.com"]},"name":"httpx"}}''\<rparr>
   = ([], Reply (call_result (Some (JStr ''b'')) ''httpx -u example.com -silent -p 80''))\<close>
  using command_generation_pure
    [where ?r1.0 = \<open>\<lparr>req_url = ''https://host/mcp'', req_method = ''POST'',
      req_headers = [''accept'' \<mapsto> ''application/json''],
      req_body = Some ''{"jsonrpc":"2.0","id":1,"method":"tools/call","params":{"name":"httpx","arguments":{"target":["example.com"],"ports":[80]}}}''\<rparr>\<close>
      and ?r2.0 = \<open>\<lparr>req_url = ''https://other/mcp?x=1'', req_method = ''POST'',
      req_headers = [''user-agent'' \<mapsto> ''curl''],
      req_body = Some ''{"id":"b","method":"tools/call","params":{"arguments":{"ports":[80],"note":"x","target":["example.com"]},"name":"httpx"}}''\<rparr>\<close>
      and parse = \<open>(\<lambda>t. if t = ''{"jsonrpc":"2.0","id":1,"method":"tools/call","params":{"name":"httpx","arguments":{"target":["example.com"],"ports":[80]}}}''
            then Some (JObj [(''jsonrpc'', JStr ''2.0''), (''id'', JNum 1), (''method'', JStr ''tools/call''),
          (''params'', JObj [(''name'', JStr ''httpx''), (''arguments'', JObj [(''target'', JArr [JStr ''example.com'']), (''ports'', JArr [JNum 80])])])])
          else if t = ''{"id":"b","method":"tools/call","params":{"arguments":{"ports":[80],"note":"x","target":["example.com"]},"name":"httpx"}}''
            then Some (JObj [(''id'', JStr ''b''), (''method'', JStr ''tools/call''),
          (''params'', JObj [(''arguments'', JObj [(''ports'', JArr [JNum 80]), (''note'', JStr ''x''), (''target'', JArr [JStr ''example.com''])]), (''name'', JStr ''httpx'')])])
          else None)\<close>
      and ?d1.0 = \<open>JObj [(''jsonrpc'', JStr ''2.0''), (''id'', JNum 1), (''method'', JStr ''tools/call''),
          (''params'', JObj [(''name'', JStr ''httpx''), (''arguments'', JObj [(''target'', JArr [JStr ''example.com'']), (''ports'', JArr [JNum 80])])])] :: int json\<close>
      and ?d2.0 = \<open>JObj [(''id'', JStr ''b''), (''method'', JStr ''tools/call''),
          (''params'', JObj [(''arguments'', JObj [(''ports'', JArr [JNum 80]), (''note'', JStr ''x''), (''target'', JArr [JStr ''example.com''])]), (''name'', JStr ''httpx'')])]\<close>
      and ?p1.0 = \<open>JObj [(''name'', JStr ''httpx''), (''arguments'', JObj [(''target'', JArr [JStr ''example.com'']), (''ports'', JArr [JNum 80])])]\<close>
      and ?p2.0 = \<open>JObj [(''arguments'', JObj [(''ports'', JArr [JNum 80]), (''note'', JStr ''x''), (''target'', JArr [JStr ''example.com''])]), (''name'', JStr ''httpx'')]\<close>
      and ?a1.0 = \<open>JObj [(''target'', JArr [JStr ''example.com'']), (''ports'', JArr [JNum 80])]\<close>
      and ?a2.0 = \<open>JObj [(''ports'', JArr [JNum 80]), (''note'', JStr ''x''), (''target'', JArr [JStr ''example.com''])]\<close>
      and c = \<open>''httpx -u example.com -silent -p 80''\<close>
      and num_str = port_str]
  by (simp add: body_text_def accept_of_def manual_command_def read_prop_def js_join_def
        ports_part_def probes_part_def port_str_def decimal.simps)

text \<open>
  C10. In the manual \<^verbatim>\<open>tools/call\<close> path only \<^verbatim>\<open>target\<close> is validated. The
  \<^verbatim>\<open>ports\<close> value is whatever the request carries, as long as the ports line
  does not throw, and the \<^verbatim>\<open>probes\<close> value is any array of JSON values that
  print, of whatever type: nothing is checked against the declared schema. The
  answer has status 200, and its command is the command without probes followed,
  for each probe in order, by a space, \<^verbatim>\<open>-\<close> and the text of the probe. A probe
  that is a string prints as itself, so every probe string (empty, with spaces,
  with shell metacharacters) stands in the command as it is.
\<close>

theorem probes_verbatim:
  assumes "req_method req = ''POST''"
    and "parse (body_text req) = Some data"
    and "own_prop data ''method'' = Some (JStr ''tools/call'')"
    and "own_prop data ''params'' = Some p"
    and "own_prop p ''name'' = Some (JStr ''httpx'')"
    and "args = (case own_prop p ''arguments'' of None \<Rightarrow> JObj [] | Some a \<Rightarrow> a)"
    and "target \<noteq> []"
    and "own_prop args ''target'' = Some (JArr (map JStr target))"
    and "ports_part num_str (own_prop args ''ports'') = Inr ports_args"
    and "own_prop args ''probes'' = Some (JArr probes)"
    and "map (to_string num_str) probes = map Inr printed"
    and "command = ''httpx '' @ join '' '' ([''-u'', join '','' target, ''-silent''] @ ports_args)
                   @ concat (map (\<lambda>probe. '' -'' @ probe) printed)"
  shows "(\<not> str_includes (accept_of req) ''application/json'' \<or>
          \<not> str_includes (accept_of req) ''text/event-stream'' \<longrightarrow>
            handler num_str parse coreHandler req =
              ([], Inr (call_result (own_prop data ''id'') command)))
       \<and> handler_part000 num_str parse baseHandler req =
            ([ConsoleLog ''Incoming Accept header:'' (accept_of req)],
             Inr (call_result (own_prop data ''id'') command))
       \<and> status (call_result (own_prop data ''id'') command :: 'n::ring_1 response) = 200
       \<and> json_path (resp_body (call_result (own_prop data ''id'') command :: 'n response))
            [''result'', ''content'']
          = Some (JArr [JObj [(''type'', JStr ''text''),
               (''text'', JStr (''Run this command locally (httpx must be installed):''
                               @ [CHR 0x0A] @ command))]])
       \<and> (\<forall>strings. probes = map JStr strings \<longrightarrow> printed = strings)"
proof -
  have seq: "sequence (map (to_string num_str) probes) = Inr printed"
    unfolding assms(11) by (induction printed) simp_all
  have pr: "probes_part num_str (own_prop args ''probes'') = Inr (map (\<lambda>probe. ''-'' @ probe) printed)"
  proof (cases "probes = []")
    case True
    with assms(11) have "printed = []" by simp
    with True show ?thesis by (simp add: probes_part_def assms(10))
  next
    case False
    then show ?thesis by (simp add: probes_part_def assms(10) seq)
  qed
  from assms(8) have "args \<noteq> JNull" by auto
  then have rd: "read_prop args ''target'' = Inr (Some (JArr (map JStr target)))"
    by (simp add: read_prop_def assms(8))
  have j: "join '' '' ([''-u'', join '','' target, ''-silent''] @ ports_args
                      @ map (\<lambda>probe. ''-'' @ probe) printed)
         = join '' '' ([''-u'', join '','' target, ''-silent''] @ ports_args)
           @ concat (map (\<lambda>probe. '' -'' @ probe) printed)"
    using join_flags [of "''-u''" "[join '','' target, ''-silent''] @ ports_args" printed]
    by (simp only: append_Cons append_Nil)
  have "manual_command num_str args =
      Inr (Some (''httpx '' @ join '' '' ([''-u'', join '','' target, ''-silent''] @ ports_args
                      @ map (\<lambda>probe. ''-'' @ probe) printed)))"
    unfolding manual_command_def rd assms(9) pr
    using assms(7) by (simp add: js_join_strings append_single)
  also have "\<dots> = Inr (Some command)"
    by (simp only: j assms(12))
  finally have mc: "manual_command num_str args = Inr (Some command)" .
  have m: "manual num_str data = Inr (Some (call_result (own_prop data ''id'') command))"
    using manual_tools_call [OF assms(3,4,5), of num_str] mc
    by (simp add: assms(6) [symmetric])
  have a: "\<not> str_includes (accept_of req) ''application/json'' \<or>
           \<not> str_includes (accept_of req) ''text/event-stream'' \<Longrightarrow>
           handler num_str parse coreHandler req =
             ([], Inr (call_result (own_prop data ''id'') command))"
    using handler_step_manual [where req = req and parse = parse and data = data
        and num_str = num_str] assms(1,2)
    by (simp add: handler_def finish_def m)
  have b: "handler_part000 num_str parse baseHandler req =
            ([ConsoleLog ''Incoming Accept header:'' (accept_of req)],
             Inr (call_result (own_prop data ''id'') command))"
    using handler_step_part000_manual [where req = req and parse = parse and data = data
        and num_str = num_str] assms(1,2)
    by (simp add: handler_part000_def finish_def m)
  have c: "json_path (resp_body (call_result (own_prop data ''id'') command :: 'n response))
            [''result'', ''content'']
          = Some (JArr [JObj [(''type'', JStr ''text''),
               (''text'', JStr (''Run this command locally (httpx must be installed):''
                               @ [CHR 0x0A] @ command))]])"
    by (simp add: call_result_def json_response_def id_entry_def split: option.split)
  have d: "status (call_result (own_prop data ''id'') command :: 'n response) = 200"
    by (simp add: call_result_def json_response_def)
  have e: "\<forall>strings. probes = map JStr strings \<longrightarrow> printed = strings"
  proof (intro allI impI)
    fix strings assume "probes = map JStr strings"
    with assms(11) have "map Inr strings = (map Inr printed :: (js_error + string) list)"
      by (simp add: o_def)
    then show "printed = strings" by (simp add: inj_map_eq_map [OF inj_Inr])
  qed
  from a b c d e show ?thesis by blast
qed

theorem probes_verbatim_witness:
  \<open>handler port_str
     (parse_only ''{"jsonrpc":"2.0","id":5,"method":"tools/call","params":{"name":"httpx","arguments":{"target":["example.com"],"ports":["80; id",443],"probes":["","title; rm -rf /","a b",7,true,null]}}}''
        (JObj [(''jsonrpc'', JStr ''2.0''), (''id'', JNum 5), (''method'', JStr ''tools/call''),
               (''params'', JObj [(''name'', JStr ''httpx''),
                  (''arguments'', JObj [(''target'', JArr [JStr ''example.com'']),
                     (''ports'', JArr [JStr ''80; id'', JNum 443]),
                     (''probes'', JArr [JStr [], JStr ''title; rm -rf /'', JStr ''a b'',
                                        JNum 7, JBool True, JNull])])])]))
     (\<lambda>q. json_response 406 JNull)
     \<lparr>req_url = ''https://host/mcp'', req_method = ''POST'',
      req_headers = [''accept'' \<mapsto> ''application/json''],
      req_body = Some ''{"jsonrpc":"2.0","id":5,"method":"tools/call","params":{"name":"httpx","arguments":{"target":["example.com"],"ports":["80; id",443],"probes":["","title; rm -rf /","a b",7,true,null]}}}''\<rparr>
   = ([], Inr (call_result (Some (JNum 5))
        ''httpx -u example.com -silent -p 80; id,443 - -title; rm -rf / -a b -7 -true -null''))\<close>
  using probes_verbatim
    [where req = \<open>\<lparr>req_url = ''https://host/mcp'', req_method = ''POST'',
      req_headers = [''accept'' \<mapsto> ''application/json''],
      req_body = Some ''{"jsonrpc":"2.0","id":5,"method":"tools/call","params":{"name":"httpx","arguments":{"target":["example.com"],"ports":["80; id",443],"probes":["","title; rm -rf /","a b",7,true,null]}}}''\<rparr>\<close>
      and parse = \<open>parse_only ''{"jsonrpc":"2.0","id":5,"method":"tools/call","params":{"name":"httpx","arguments":{"target":["example.com"],"ports":["80; id",443],"probes":["","title; rm -rf /","a b",7,true,null]}}}''
        (JObj [(''jsonrpc'', JStr ''2.0''), (''id'', JNum 5), (''method'', JStr ''tools/call''),
               (''params'', JObj [(''name'', JStr ''httpx''),
                  (''arguments'', JObj [(''target'', JArr [JStr ''example.com'']),
                     (''ports'', JArr [JStr ''80; id'', JNum 443]),
                     (''probes'', JArr [JStr [], JStr ''title; rm -rf /'', JStr ''a b'',
                                        JNum 7, JBool True, JNull])])])])\<close>
      and data = \<open>JObj [(''jsonrpc'', JStr ''2.0''), (''id'', JNum 5), (''method'', JStr ''tools/call''),
               (''params'', JObj [(''name'', JStr ''httpx''),
                  (''arguments'', JObj [(''target'', JArr [JStr ''example.com'']),
                     (''ports'', JArr [JStr ''80; id'', JNum 443]),
                     (''probes'', JArr [JStr [], JStr ''title; rm -rf /'', JStr ''a b'',
                                        JNum 7, JBool True, JNull])])])] :: int json\<close>
      and p = \<open>JObj [(''name'', JStr ''httpx''),
                  (''arguments'', JObj [(''target'', JArr [JStr ''example.com'']),
                     (''ports'', JArr [JStr ''80; id'', JNum 443]),
                     (''probes'', JArr [JStr [], JStr ''title; rm -rf /'', JStr ''a b'',
                                        JNum 7, JBool True, JNull])])]\<close>
      and args = \<open>JObj [(''target'', JArr [JStr ''example.com'']),
                     (''ports'', JArr [JStr ''80; id'', JNum 443]),
                     (''probes'', JArr [JStr [], JStr ''title; rm -rf /'', JStr ''a b'',
                                        JNum 7, JBool True, JNull])]\<close>
      and target = \<open>[''example.com'']\<close>
      and ports_args = \<open>[''-p'', ''80; id,443'']\<close>
      and probes = \<open>[JStr [], JStr ''title; rm -rf /'', JStr ''a b'', JNum 7, JBool True, JNull]\<close>
      and printed = \<open>[[], ''title; rm -rf /'', ''a b'', ''7'', ''true'', ''null'']\<close>
      and command = \<open>''httpx -u example.com -silent -p 80; id,443 - -title; rm -rf / -a b -7 -true -null''\<close>
      and num_str = port_str and coreHandler = \<open>\<lambda>q. json_response 406 JNull\<close>
      and baseHandler = \<open>\<lambda>q. json_response 406 JNull\<close>,
      THEN conjunct1]
  by (simp add: parse_only_def body_text_def accept_of_def ports_part_def js_join_def
        port_str_def decimal.simps)

section \<open>Choosing between the manual path and delegation\<close>

text \<open>
  C3, as the code has it. In \<^verbatim>\<open>route.ts\<close> the manual path is taken exactly when
  the accept header (an absent header counts as the empty string) lacks
  \<^verbatim>\<open>application/json\<close> or lacks \<^verbatim>\<open>text/event-stream\<close>. With both in the
  header the handler writes no log line, builds no answer of its own and goes
  straight to the rebuild, and a request without a body is handed to the framework
  handler. With one of them missing, a POST request that the manual block answers
  gets that answer, and a request that is not a POST goes to the rebuild. In
  \<^verbatim>\<open>part_000\<close> every POST request takes the manual path, whatever the accept
  header says; in \<^verbatim>\<open>part_002\<close> no request does, and one without a body is
  handed on.
\<close>

theorem path_selection:
  "(str_includes (accept_of req) ''application/json'' \<and>
    str_includes (accept_of req) ''text/event-stream'' \<longrightarrow>
      handler_step num_str parse req = ([], hand_on (forward req)))
   \<and> (str_includes (accept_of req) ''application/json'' \<and>
      str_includes (accept_of req) ''text/event-stream'' \<and> req_body req = None \<longrightarrow>
        handler_step num_str parse req =
          ([], Delegate \<lparr>req_url = req_url req, req_method = req_method req,
                 req_headers =
                   (req_headers req)(''accept'' \<mapsto> ''application/json, text/event-stream''),
                 req_body = None\<rparr>))
   \<and> (\<not> (str_includes (accept_of req) ''application/json'' \<and>
          str_includes (accept_of req) ''text/event-stream'') \<and>
       req_method req = ''POST'' \<and> parse (body_text req) = Some data \<and>
       manual num_str data = Inr (Some r) \<longrightarrow>
         handler_step num_str parse req = ([], Reply r))
   \<and> (req_method req \<noteq> ''POST'' \<longrightarrow>
         handler_step num_str parse req = ([], hand_on (forward req)))
   \<and> (req_method req = ''POST'' \<and> parse (body_text req) = Some data \<and>
       manual num_str data = Inr (Some r) \<longrightarrow>
         handler_step_part000 num_str parse req =
           ([ConsoleLog ''Incoming Accept header:'' (accept_of req)], Reply r))
   \<and> (\<forall>answer. (handler_step_part002 req :: log_entry list \<times> 'n action) \<noteq> ([], Reply answer))
   \<and> (req_body req = None \<longrightarrow>
        (handler_step_part002 req :: log_entry list \<times> 'n action) =
          ([], Delegate \<lparr>req_url = req_url req, req_method = req_method req,
                 req_headers =
                   (req_headers req)(''accept'' \<mapsto> ''application/json, text/event-stream''),
                 req_body = None\<rparr>))"
  by (auto simp add: handler_step_def handler_step_part000_def handler_step_part002_def Let_def
        forward_no_body hand_on_def split: sum.splits)

theorem path_selection_witness:
  \<open>handler_step port_str
     (parse_only ''{"jsonrpc":"2.0","id":1,"method":"initialize"}''
        (JObj [(''jsonrpc'', JStr ''2.0''), (''id'', JNum 1), (''method'', JStr ''initialize'')]))
     \<lparr>req_url = ''https://host/mcp'', req_method = ''GET'',
      req_headers = [''accept'' \<mapsto> ''application/json, text/event-stream''],
      req_body = None\<rparr>
   = ([], Delegate \<lparr>req_url = ''https://host/mcp'', req_method = ''GET'',
      req_headers = [''accept'' \<mapsto> ''application/json, text/event-stream''],
      req_body = None\<rparr>)
   \<and> handler_step port_str
     (parse_only ''{"jsonrpc":"2.0","id":1,"method":"initialize"}''
        (JObj [(''jsonrpc'', JStr ''2.0''), (''id'', JNum 1), (''method'', JStr ''initialize'')]))
     \<lparr>req_url = ''https://host/mcp'', req_method = ''POST'',
      req_headers = [''accept'' \<mapsto> ''application/json''],
      req_body = Some ''{"jsonrpc":"2.0","id":1,"method":"initialize"}''\<rparr>
   = ([], Reply (initialize_response (Some (JNum 1))))\<close>
  apply (rule conjI)
  subgoal
    using path_selection
      [where req = \<open>\<lparr>req_url = ''https://host/mcp'', req_method = ''GET'',
      req_headers = [''accept'' \<mapsto> ''application/json, text/event-stream''],
      req_body = None\<rparr>\<close>
        and parse = \<open>(parse_only ''{"jsonrpc":"2.0","id":1,"method":"initialize"}''
        (JObj [(''jsonrpc'', JStr ''2.0''), (''id'', JNum 1), (''method'', JStr ''initialize'')]))\<close> and num_str = port_str
        and data = \<open>JObj [(''jsonrpc'', JStr ''2.0''), (''id'', JNum 1), (''method'', JStr ''initialize'')]\<close>
        and r = \<open>initialize_response (Some (JNum 1))\<close>,
        THEN conjunct2, THEN conjunct1]
    by (simp add: accept_of_def)
  subgoal
    using path_selection
      [where req = \<open>\<lparr>req_url = ''https://host/mcp'', req_method = ''POST'',
      req_headers = [''accept'' \<mapsto> ''application/json''],
      req_body = Some ''{"jsonrpc":"2.0","id":1,"method":"initialize"}''\<rparr>\<close>
        and parse = \<open>(parse_only ''{"jsonrpc":"2.0","id":1,"method":"initialize"}''
        (JObj [(''jsonrpc'', JStr ''2.0''), (''id'', JNum 1), (''method'', JStr ''initialize'')]))\<close> and num_str = port_str
        and data = \<open>JObj [(''jsonrpc'', JStr ''2.0''), (''id'', JNum 1), (''method'', JStr ''initialize'')]\<close>
        and r = \<open>initialize_response (Some (JNum 1))\<close>,
        THEN conjunct2, THEN conjunct2, THEN conjunct1]
    by (simp add: accept_of_def body_text_def parse_only_def manual_def)
  done

text \<open>
  C3 as it is written ties the manual path to the event-streaming mode alone. A
  request whose accept header is \<^verbatim>\<open>text/event-stream\<close> declares that mode, and
  \<^verbatim>\<open>route.ts\<close> still answers its \<^verbatim>\<open>initialize\<close> itself; \<^verbatim>\<open>part_000\<close> does
  so even when the header declares both modes.
\<close>

theorem event_stream_accept_counterexample:
  \<open>str_includes ''text/event-stream'' ''text/event-stream''
   \<and> handler_step port_str
     (parse_only ''{"jsonrpc":"2.0","id":1,"method":"initialize"}''
        (JObj [(''jsonrpc'', JStr ''2.0''), (''id'', JNum 1), (''method'', JStr ''initialize'')]))
     \<lparr>req_url = ''https://host/mcp'', req_method = ''POST'',
      req_headers = [''accept'' \<mapsto> ''text/event-stream''],
      req_body = Some ''{"jsonrpc":"2.0","id":1,"method":"initialize"}''\<rparr>
   = ([], Reply (initialize_response (Some (JNum 1))))
   \<and> handler_step_part000 port_str
     (parse_only ''{"jsonrpc":"2.0","id":1,"method":"initialize"}''
        (JObj [(''jsonrpc'', JStr ''2.0''), (''id'', JNum 1), (''method'', JStr ''initialize'')]))
     \<lparr>req_url = ''https://host/mcp'', req_method = ''POST'',
      req_headers = [''accept'' \<mapsto> ''application/json, text/event-stream''],
      req_body = Some ''{"jsonrpc":"2.0","id":1,"method":"initialize"}''\<rparr>
   = ([ConsoleLog ''Incoming Accept header:'' ''application/json, text/event-stream''],
      Reply (initialize_response (Some (JNum 1))))\<close>
  by (simp add: handler_step_def handler_step_part000_def accept_of_def body_text_def
        parse_only_def manual_def)

text \<open>
  C5, as the code has it, for a request without a body. The request handed to the
  framework handler has the URL and the method of the incoming request and, like
  it, no body, and every header other than \<^verbatim>\<open>accept\<close> as it came; the framework
  handler's response is returned as it is. \<^verbatim>\<open>route.ts\<close> and \<^verbatim>\<open>part_002\<close> always
  set \<^verbatim>\<open>accept\<close> to \<^verbatim>\<open>application/json, text/event-stream\<close>; \<^verbatim>\<open>part_000\<close>
  sets it whenever the incoming header lacks \<^verbatim>\<open>text/event-stream\<close>. A request
  without a body that is not answered by the manual block is handed on.
\<close>

theorem delegation_frame:
  "(req_body req = None \<and> handler_step num_str parse req = (out, Delegate q) \<longrightarrow>
      req_url q = req_url req \<and> req_method q = req_method req
      \<and> req_body q = req_body req
      \<and> (\<forall>h. h \<noteq> ''accept'' \<longrightarrow> req_headers q h = req_headers req h)
      \<and> req_headers q ''accept'' = Some ''application/json, text/event-stream''
      \<and> handler num_str parse coreHandler req = (out, Inr (coreHandler q)))
   \<and> (req_body req = None \<and>
      (handler_step_part002 req :: log_entry list \<times> 'n action) = (out2, Delegate q2) \<longrightarrow>
      req_url q2 = req_url req \<and> req_method q2 = req_method req
      \<and> req_body q2 = req_body req
      \<and> (\<forall>h. h \<noteq> ''accept'' \<longrightarrow> req_headers q2 h = req_headers req h)
      \<and> req_headers q2 ''accept'' = Some ''application/json, text/event-stream''
      \<and> handler_part002 coreHandler req = (out2, Inr (coreHandler q2)))
   \<and> (req_body req = None \<and> handler_step_part000 num_str parse req = (out0, Delegate q0) \<longrightarrow>
      req_url q0 = req_url req \<and> req_method q0 = req_method req
      \<and> req_body q0 = req_body req
      \<and> (\<forall>h. h \<noteq> ''accept'' \<longrightarrow> req_headers q0 h = req_headers req h)
      \<and> (\<not> str_includes (accept_of req) ''text/event-stream'' \<longrightarrow>
           req_headers q0 ''accept'' = Some ''application/json, text/event-stream'')
      \<and> handler_part000 num_str parse baseHandler req = (out0, Inr (baseHandler q0)))
   \<and> (req_body req = None \<longrightarrow>
        (\<exists>answer. snd (handler_step num_str parse req) = Reply answer) \<or>
        (\<exists>handed. snd (handler_step num_str parse req) = Delegate handed))
   \<and> (req_body req = None \<longrightarrow>
        (\<exists>handed. (handler_step_part002 req :: log_entry list \<times> 'n action) = ([], Delegate handed)))
   \<and> (req_body req = None \<longrightarrow>
        (\<exists>answer. snd (handler_step_part000 num_str parse req) = Reply answer) \<or>
        (\<exists>handed. snd (handler_step_part000 num_str parse req) = Delegate handed))"
proof -
  have a: "handler_step num_str parse req = (out, Delegate q) \<Longrightarrow>
      req_url q = req_url req \<and> req_method q = req_method req
      \<and> req_body q = req_body req
      \<and> (\<forall>h. h \<noteq> ''accept'' \<longrightarrow> req_headers q h = req_headers req h)
      \<and> req_headers q ''accept'' = Some ''application/json, text/event-stream''
      \<and> handler num_str parse coreHandler req = (out, Inr (coreHandler q))"
  proof -
    assume h: "handler_step num_str parse req = (out, Delegate q)"
    from forward_Inr [OF handler_step_delegates [OF h]]
    show ?thesis using h by (simp add: handler_def finish_def)
  qed
  have b: "(handler_step_part002 req :: log_entry list \<times> 'n action) = (out2, Delegate q2) \<Longrightarrow>
      req_url q2 = req_url req \<and> req_method q2 = req_method req
      \<and> req_body q2 = req_body req
      \<and> (\<forall>h. h \<noteq> ''accept'' \<longrightarrow> req_headers q2 h = req_headers req h)
      \<and> req_headers q2 ''accept'' = Some ''application/json, text/event-stream''
      \<and> handler_part002 coreHandler req = (out2, Inr (coreHandler q2))"
  proof -
    assume h: "(handler_step_part002 req :: log_entry list \<times> 'n action) = (out2, Delegate q2)"
    then have o: "out2 = []" and "forward req = Inr q2"
      by (simp_all add: handler_step_part002_def hand_on_Delegate)
    from forward_Inr [OF this(2)] have f: "req_body req = None"
      and q: "q2 = \<lparr>req_url = req_url req, req_method = req_method req,
          req_headers = (req_headers req)(''accept'' \<mapsto> ''application/json, text/event-stream''),
          req_body = None\<rparr>" by simp_all
    then have "handler_part002 coreHandler req = (out2, Inr (coreHandler q2))"
      by (simp add: handler_part002_def handler_step_part002_def forward_no_body hand_on_def
            finish_def o)
    then show ?thesis using f q by simp
  qed
  have c: "handler_step_part000 num_str parse req = (out0, Delegate q0) \<Longrightarrow>
      req_url q0 = req_url req \<and> req_method q0 = req_method req
      \<and> req_body q0 = req_body req
      \<and> (\<forall>h. h \<noteq> ''accept'' \<longrightarrow> req_headers q0 h = req_headers req h)
      \<and> (\<not> str_includes (accept_of req) ''text/event-stream'' \<longrightarrow>
           req_headers q0 ''accept'' = Some ''application/json, text/event-stream'')
      \<and> handler_part000 num_str parse baseHandler req = (out0, Inr (baseHandler q0))"
  proof -
    assume h: "handler_step_part000 num_str parse req = (out0, Delegate q0)"
    from handler_step_part000_delegates [OF h] obtain used
      where "forward_part000 used req = Inr q0" by blast
    from forward_part000_Inr [OF this]
    show ?thesis using h by (simp add: handler_part000_def finish_def)
  qed
  have d: "req_body req = None \<Longrightarrow>
        (\<exists>answer. snd (handler_step num_str parse req) = Reply answer) \<or>
        (\<exists>handed. snd (handler_step num_str parse req) = Delegate handed)"
    by (auto simp add: handler_step_def Let_def forward_no_body hand_on_def
          split: option.splits sum.splits)
  have e: "req_body req = None \<Longrightarrow>
        (\<exists>handed. (handler_step_part002 req :: log_entry list \<times> 'n action) = ([], Delegate handed))"
    by (simp add: handler_step_part002_def forward_no_body hand_on_def)
  have f: "req_body req = None \<Longrightarrow>
        (\<exists>answer. snd (handler_step_part000 num_str parse req) = Reply answer) \<or>
        (\<exists>handed. snd (handler_step_part000 num_str parse req) = Delegate handed)"
    by (auto simp add: handler_step_part000_def Let_def forward_part000_def clone_def
          new_request_def hand_on_def split: option.splits sum.splits)
  from a b c d e f show ?thesis by blast
qed

theorem delegation_frame_witness:
  \<open>handler_step port_str
     (parse_only ''{"jsonrpc":"2.0","id":1,"method":"initialize"}''
        (JObj [(''jsonrpc'', JStr ''2.0''), (''id'', JNum 1), (''method'', JStr ''initialize'')]))
     \<lparr>req_url = ''https://host/mcp'', req_method = ''GET'',
      req_headers = [''accept'' \<mapsto> ''text/html'', ''mcp-session-id'' \<mapsto> ''s1''],
      req_body = None\<rparr>
   = ([], Delegate \<lparr>req_url = ''https://host/mcp'', req_method = ''GET'',
      req_headers = [''accept'' \<mapsto> ''application/json, text/event-stream'',
                     ''mcp-session-id'' \<mapsto> ''s1''],
      req_body = None\<rparr>)
   \<and> handler port_str
     (parse_only ''{"jsonrpc":"2.0","id":1,"method":"initialize"}''
        (JObj [(''jsonrpc'', JStr ''2.0''), (''id'', JNum 1), (''method'', JStr ''initialize'')]))
     (\<lambda>q. json_response 200 (JStr (accept_of q)))
     \<lparr>req_url = ''https://host/mcp'', req_method = ''GET'',
      req_headers = [''accept'' \<mapsto> ''text/html'', ''mcp-session-id'' \<mapsto> ''s1''],
      req_body = None\<rparr>
   = ([], Inr (json_response 200 (JStr ''application/json, text/event-stream'')))\<close>
proof -
  have h: \<open>handler_step port_str
     (parse_only ''{"jsonrpc":"2.0","id":1,"method":"initialize"}''
        (JObj [(''jsonrpc'', JStr ''2.0''), (''id'', JNum 1), (''method'', JStr ''initialize'')]))
     \<lparr>req_url = ''https://host/mcp'', req_method = ''GET'',
      req_headers = [''accept'' \<mapsto> ''text/html'', ''mcp-session-id'' \<mapsto> ''s1''],
      req_body = None\<rparr>
   = ([], Delegate \<lparr>req_url = ''https://host/mcp'', req_method = ''GET'',
      req_headers = [''accept'' \<mapsto> ''application/json, text/event-stream'',
                     ''mcp-session-id'' \<mapsto> ''s1''],
      req_body = None\<rparr>)\<close>
    by (simp add: handler_step_def accept_of_def hand_on_def forward_def new_request_def
          fun_upd_twist)
  show ?thesis
    using h delegation_frame
      [where req = \<open>\<lparr>req_url = ''https://host/mcp'', req_method = ''GET'',
      req_headers = [''accept'' \<mapsto> ''text/html'', ''mcp-session-id'' \<mapsto> ''s1''],
      req_body = None\<rparr>\<close>
        and parse = \<open>(parse_only ''{"jsonrpc":"2.0","id":1,"method":"initialize"}''
        (JObj [(''jsonrpc'', JStr ''2.0''), (''id'', JNum 1), (''method'', JStr ''initialize'')]))\<close> and num_str = port_str
        and out = \<open>[]\<close>
        and q = \<open>\<lparr>req_url = ''https://host/mcp'', req_method = ''GET'',
      req_headers = [''accept'' \<mapsto> ''application/json, text/event-stream'',
                     ''mcp-session-id'' \<mapsto> ''s1''],
      req_body = None\<rparr>\<close>
        and coreHandler = \<open>\<lambda>q. json_response 200 (JStr (accept_of q))\<close>,
        THEN conjunct1]
    by (simp add: accept_of_def)
qed

text \<open>
  C5 as it is written fails in \<^verbatim>\<open>part_000\<close>: a request whose accept header is
  \<^verbatim>\<open>text/event-stream\<close> is handed on with that header unchanged, which does
  not declare \<^verbatim>\<open>application/json\<close>.
\<close>

theorem part000_accept_counterexample:
  \<open>handler_step_part000 port_str
     (parse_only ''{"jsonrpc":"2.0","id":1,"method":"initialize"}''
        (JObj [(''jsonrpc'', JStr ''2.0''), (''id'', JNum 1), (''method'', JStr ''initialize'')]))
     \<lparr>req_url = ''https://host/mcp'', req_method = ''GET'',
      req_headers = [''accept'' \<mapsto> ''text/event-stream''],
      req_body = None\<rparr>
   = ([ConsoleLog ''Incoming Accept header:'' ''text/event-stream''],
      Delegate \<lparr>req_url = ''https://host/mcp'', req_method = ''GET'',
      req_headers = [''accept'' \<mapsto> ''text/event-stream''],
      req_body = None\<rparr>)
   \<and> \<not> str_includes ''text/event-stream'' ''application/json''\<close>
  by (simp add: handler_step_part000_def forward_part000_def clone_def new_request_def
        hand_on_def accept_of_def)

end
